theory Spec2Isabelle
  imports Main
begin

text \<open>
  A shallow embedding of the forward-authentication sidecar: the access handler and the
  readiness endpoint (package auth), the IP matcher, the EDL parser and updater, the
  token manager (package api), and the leaky bucket, ring buffer and log shipper
  (package logs). Each Go function is a HOL function of the same name; what a function
  reads from the outside (the clock, the network, the libraries) is an argument, and
  what it does to the outside is part of its result. The definitions come first, the
  properties proved of them after.
\<close>

section \<open>Shared vocabulary\<close>

text \<open>
  Go's \<open>error\<close> values. \<open>PermanentError\<close> is the struct of \<open>api/errors.go\<close>
  (status code and message); every other error of the program is made with \<open>errors.New\<close>
  or comes out of a library and is an \<open>Error\<close> with its message.
\<close>

datatype error = Error string | PermanentError int string

text \<open>\<open>IsPermanentError\<close> of \<open>api/errors.go\<close>: a type assertion to \<open>*PermanentError\<close>.\<close>

fun IsPermanentError :: "error \<Rightarrow> bool" where
  "IsPermanentError (PermanentError _ _) = True"
| "IsPermanentError (Error _) = False"

text \<open>
  Instants and durations are counted in nanoseconds, as \<open>time.Duration\<close> is. An instant
  is the number of nanoseconds since Go's zero \<open>time.Time\<close>, so \<open>IsZero\<close> is equality
  with 0. \<open>Time.Sub\<close> saturates at the smallest and largest \<open>Duration\<close>.
\<close>

type_synonym Time = int
type_synonym Duration = int

definition Second :: Duration where
  "Second = 1000000000"

definition Hour :: Duration where
  "Hour = 3600 * Second"

definition maxDuration :: Duration where
  "maxDuration = 2 ^ 63 - 1"

definition minDuration :: Duration where
  "minDuration = - (2 ^ 63)"

definition Sub :: "Time \<Rightarrow> Time \<Rightarrow> Duration" where
  "Sub t u = (if t - u > maxDuration then maxDuration
              else if t - u < minDuration then minDuration else t - u)"

definition IsZero :: "Time \<Rightarrow> bool" where
  "IsZero t = (t = 0)"

text \<open>
  The functions of Go's standard library and of \<open>go4.org/netipx\<close> that the program calls
  are not part of the repository. They are parameters of the model, collected in one
  record; \<open>'a\<close> stands for \<open>netip.Addr\<close> and \<open>'p\<close> for \<open>netip.Prefix\<close>.

  An \<open>IPSet\<close> is represented by the builder operations that made it: \<open>AddPrefix p\<close> is
  the entry \<open>PrefixEntry p\<close>, \<open>Add a\<close> is \<open>AddrEntry a\<close>. \<open>Covers e ip\<close> says that the
  addresses put into the set by entry \<open>e\<close> include \<open>ip\<close>, and \<open>Rejects e\<close> that the
  builder records an error for the operation (which \<open>IPSetBuilder.IPSet\<close> then returns).
  \<open>Scan body\<close> is a \<open>bufio.Scanner\<close> run over a reader that delivers \<open>body\<close>: the
  tokens of its successive \<open>Scan\<close> calls, and the value of \<open>Err\<close> once \<open>Scan\<close> has
  returned false.
\<close>

datatype ('a, 'p) entry = PrefixEntry 'p | AddrEntry 'a

type_synonym ('a, 'p) IPSet = "('a, 'p) entry list"

record ('a, 'p) golib =
  TrimSpace :: "string \<Rightarrow> string"
  SplitHostPort :: "string \<Rightarrow> error + (string \<times> string)"
  ParseAddr :: "string \<Rightarrow> error + 'a"
  ParsePrefix :: "string \<Rightarrow> error + 'p"
  Covers :: "('a, 'p) entry \<Rightarrow> 'a \<Rightarrow> bool"
  Rejects :: "('a, 'p) entry \<Rightarrow> bool"
  Scan :: "string \<Rightarrow> string list \<times> error option"

text \<open>\<open>IPSet.Contains\<close>: the address lies in what some entry added.\<close>

definition IPSet_Contains :: "('a, 'p, 'z) golib_scheme \<Rightarrow> ('a, 'p) IPSet \<Rightarrow> 'a \<Rightarrow> bool" where
  "IPSet_Contains lib s ip = list_ex (\<lambda>e. Covers lib e ip) s"

text \<open>\<open>strings.Contains\<close> and \<open>strings.HasPrefix\<close> on byte strings.\<close>

definition HasPrefix :: "string \<Rightarrow> string \<Rightarrow> bool" where
  "HasPrefix s pre = (take (length pre) s = pre)"

fun strings_Contains :: "string \<Rightarrow> string \<Rightarrow> bool" where
  "strings_Contains [] sub = (sub = [])"
| "strings_Contains (c # cs) sub = (HasPrefix (c # cs) sub \<or> strings_Contains cs sub)"

text \<open>The first element of \<open>strings.Split(s, ",")\<close>: everything before the first comma.\<close>

definition firstField :: "string \<Rightarrow> string" where
  "firstField s = takeWhile (\<lambda>c. c \<noteq> CHR '','') s"

section \<open>Package ipmatcher\<close>

record ('a, 'p) Matcher =
  ipset :: "('a, 'p) IPSet"
  count :: int

definition Matcher_New :: "('a, 'p) Matcher" where
  "Matcher_New = \<lparr>ipset = [], count = 0\<rparr>"

definition Matcher_Contains :: "('a, 'p, 'z) golib_scheme \<Rightarrow> ('a, 'p) Matcher \<Rightarrow> 'a \<Rightarrow> bool" where
  "Matcher_Contains lib m ip = IPSet_Contains lib (ipset m) ip"

definition Matcher_Update :: "('a, 'p) IPSet \<Rightarrow> int \<Rightarrow> ('a, 'p) Matcher \<Rightarrow> ('a, 'p) Matcher" where
  "Matcher_Update s n m = m\<lparr>ipset := s, count := n\<rparr>"

definition Matcher_Count :: "('a, 'p) Matcher \<Rightarrow> int" where
  "Matcher_Count m = count m"

section \<open>Package auth: the access handler\<close>

text \<open>
  A request as the handler reads it: \<open>HeaderGet\<close> is \<open>r.Header.Get\<close> (the empty string
  for a header that is absent), \<open>RemoteAddr\<close> the transport address.
\<close>

record Request =
  HeaderGet :: "string \<Rightarrow> string"
  RemoteAddr :: string

text \<open>
  The fields of \<open>Handler\<close>. The log shipper is shared mutable state of another package;
  the handler only tests the pointer against nil and hands it events, so the field
  records whether it is set and \<open>ServeHTTP\<close> returns the event it sends.
\<close>

record ('a, 'p) Handler =
  matcher :: "('a, 'p) Matcher"
  isBlocklist :: bool
  deploymentEnabled :: bool
  logShipper :: bool
  deviceID :: string
  ipHeaderOverride :: string

definition NewHandler :: "('a, 'p) Matcher \<Rightarrow> string \<Rightarrow> bool \<Rightarrow> ('a, 'p) Handler" where
  "NewHandler m edlMode enabled =
     \<lparr>matcher = m, isBlocklist = (edlMode = ''blocklist''), deploymentEnabled = enabled,
      logShipper = False, deviceID = [], ipHeaderOverride = []\<rparr>"

definition SetLogShipper :: "('a, 'p) Handler \<Rightarrow> ('a, 'p) Handler" where
  "SetLogShipper h = h\<lparr>logShipper := True\<rparr>"

definition SetDeviceID :: "string \<Rightarrow> ('a, 'p) Handler \<Rightarrow> ('a, 'p) Handler" where
  "SetDeviceID d h = h\<lparr>deviceID := d\<rparr>"

definition SetIPHeaderOverride :: "string \<Rightarrow> ('a, 'p) Handler \<Rightarrow> ('a, 'p) Handler" where
  "SetIPHeaderOverride headerName h = h\<lparr>ipHeaderOverride := headerName\<rparr>"

text \<open>
  The policy mode the handler works with: the local \<open>edlMode\<close> that \<open>sendAccessEvent\<close>
  derives from \<open>isBlocklist\<close> and reports in its events.
\<close>

definition edlModeOf :: "('a, 'p) Handler \<Rightarrow> string" where
  "edlModeOf h = (if \<not> isBlocklist h then ''allowlist'' else ''blocklist'')"

definition evaluateAccess ::
  "('a, 'p, 'z) golib_scheme \<Rightarrow> ('a, 'p) Handler \<Rightarrow> string \<Rightarrow> error + bool" where
  "evaluateAccess lib h clientIP =
     (if \<not> deploymentEnabled h then Inr True
      else case ParseAddr lib clientIP of
        Inl err \<Rightarrow> Inl err
      | Inr addr \<Rightarrow>
          (let inList = Matcher_Contains lib (matcher h) addr
           in Inr (isBlocklist h \<noteq> inList)))"

definition extractClientIP ::
  "('a, 'p, 'z) golib_scheme \<Rightarrow> ('a, 'p) Handler \<Rightarrow> Request \<Rightarrow> string" where
  "extractClientIP lib h r =
     (if ipHeaderOverride h \<noteq> [] \<and> HeaderGet r (ipHeaderOverride h) \<noteq> []
      then TrimSpace lib (firstField (HeaderGet r (ipHeaderOverride h)))
      else if HeaderGet r ''X-Forwarded-For'' \<noteq> []
      then TrimSpace lib (firstField (HeaderGet r ''X-Forwarded-For''))
      else if HeaderGet r ''X-Real-IP'' \<noteq> []
      then TrimSpace lib (HeaderGet r ''X-Real-IP'')
      else case SplitHostPort lib (RemoteAddr r) of
        Inr (host, port) \<Rightarrow> host
      | Inl err \<Rightarrow> RemoteAddr r)"

text \<open>
  The event of \<open>logs.NewAccessEvent\<close>, with the fields the decision determines
  (the timestamp and the debug headers are left out).
\<close>

record AccessEvent =
  Outcome :: string
  Reason :: string
  StatusCode :: int
  DeviceID :: string
  ReqMethod :: string
  ReqHost :: string
  ReqPath :: string
  ReqScheme :: string
  ClientIP :: string
  UserAgent :: string
  PolicyMode :: string

definition NewAccessEvent ::
  "string \<Rightarrow> (string \<Rightarrow> string) \<Rightarrow> string \<Rightarrow> string \<Rightarrow> bool \<Rightarrow> int \<Rightarrow> AccessEvent" where
  "NewAccessEvent sourceIP headers devID edlMode allowed responseCode =
     \<lparr>Outcome = (if \<not> allowed then ''blocked'' else ''allowed''),
      Reason = (if \<not> allowed
                then (if edlMode = ''allowlist'' then ''not_in_allowlist''
                      else if edlMode = ''blocklist'' then ''in_blocklist'' else ''in_allowlist'')
                else (if edlMode = ''allowlist'' then ''in_allowlist''
                      else if edlMode = ''blocklist'' then ''not_in_blocklist'' else ''in_allowlist'')),
      StatusCode = responseCode,
      DeviceID = devID,
      ReqMethod = headers ''X-Forwarded-Method'',
      ReqHost = headers ''X-Forwarded-Host'',
      ReqPath = headers ''X-Forwarded-Uri'',
      ReqScheme = headers ''X-Forwarded-Proto'',
      ClientIP = sourceIP,
      UserAgent = headers ''User-Agent'',
      PolicyMode = edlMode\<rparr>"

definition sendAccessEvent :: "('a, 'p) Handler \<Rightarrow> string \<Rightarrow> Request \<Rightarrow> bool \<Rightarrow> AccessEvent" where
  "sendAccessEvent h clientIP r allowed =
     NewAccessEvent clientIP (HeaderGet r) (deviceID h) (edlModeOf h)
       allowed (if \<not> allowed then 403 else 200)"

text \<open>
  What \<open>ServeHTTP\<close> does to the outside: the status code and body written, the label
  of the request metric, and the event handed to the log shipper (if any).
\<close>

record Response =
  Status :: int
  ContentType :: string
  Body :: string
  MetricLabel :: string
  Sent :: "AccessEvent option"

text \<open>
  \<open>serveForbidden\<close>; \<open>page\<close> is the content of \<open>/static/403.html\<close>, \<open>None\<close> when
  \<open>os.Open\<close> fails. \<open>http.Error\<close> writes a plain-text body ending in a newline.
\<close>

definition serveForbidden :: "string option \<Rightarrow> Request \<Rightarrow> int \<times> string \<times> string" where
  "serveForbidden page r =
     (if strings_Contains (HeaderGet r ''Accept'') ''text/html''
      then (case page of
              None \<Rightarrow> (403, ''text/plain; charset=utf-8'', ''Forbidden'' @ [CHR 0x0A])
            | Some html \<Rightarrow> (403, ''text/html; charset=utf-8'', html))
      else (403, ''text/plain; charset=utf-8'', ''Forbidden'' @ [CHR 0x0A]))"

definition ServeHTTP ::
  "('a, 'p, 'z) golib_scheme \<Rightarrow> string option \<Rightarrow> ('a, 'p) Handler \<Rightarrow> Request \<Rightarrow> Response" where
  "ServeHTTP lib page h r =
     (let clientIP = extractClientIP lib h r in
      if clientIP = []
      then \<lparr>Status = 400, ContentType = ''text/plain; charset=utf-8'',
            Body = ''Unable to determine client IP'' @ [CHR 0x0A],
            MetricLabel = ''invalid'', Sent = None\<rparr>
      else case evaluateAccess lib h clientIP of
        Inl err \<Rightarrow>
          \<lparr>Status = 400, ContentType = ''text/plain; charset=utf-8'',
           Body = ''Invalid IP address'' @ [CHR 0x0A],
           MetricLabel = ''invalid'', Sent = None\<rparr>
      | Inr allowed \<Rightarrow>
          if allowed
          then \<lparr>Status = 200, ContentType = [], Body = [], MetricLabel = ''allowed'', Sent = None\<rparr>
          else (case serveForbidden page r of
                  (st, ct, body) \<Rightarrow>
                    \<lparr>Status = st, ContentType = ct, Body = body, MetricLabel = ''denied'',
                     Sent = (if logShipper h then Some (sendAccessEvent h clientIP r False)
                             else None)\<rparr>))"

section \<open>Package config: the applied EDL configuration\<close>

record EDLConfig =
  Purpose :: string
  UpdateFrequencySeconds :: int
  URLsCombined :: "string list"
  Enabled :: bool

record Config =
  EDLURL :: string
  EDLMode :: string
  UpdateFrequency :: Duration
  DeploymentEnabled :: bool

definition setDeploymentDisabled :: "Config \<Rightarrow> Config" where
  "setDeploymentDisabled cfg =
     cfg\<lparr>DeploymentEnabled := False, EDLMode := ''disabled'', UpdateFrequency := 1 * Hour,
         EDLURL := []\<rparr>"

definition applyEDLConfig :: "EDLConfig \<Rightarrow> Config \<Rightarrow> Config" where
  "applyEDLConfig edlConfig cfg =
     (if \<not> Enabled edlConfig then setDeploymentDisabled cfg
      else
        (let cfg1 = cfg\<lparr>DeploymentEnabled := True\<rparr>;
             cfg2 = cfg1\<lparr>EDLMode :=
                      (if Purpose edlConfig = ''allowlist'' then ''allowlist''
                       else if Purpose edlConfig \<in> {''blocklist'', ''other'', ''others''}
                       then ''blocklist'' else ''blocklist'')\<rparr>;
             cfg3 = cfg2\<lparr>UpdateFrequency := UpdateFrequencySeconds edlConfig * Second\<rparr>;
             cfg4 = (if UpdateFrequency cfg3 \<le> 0 then cfg3\<lparr>UpdateFrequency := 5 * 60 * Second\<rparr>
                     else cfg3)
         in (case URLsCombined edlConfig of
               [] \<Rightarrow> cfg4
             | u # us \<Rightarrow> cfg4\<lparr>EDLURL := u\<rparr>)))"

section \<open>Package utils\<close>

text \<open>
  Modelled from the spec: \<open>utils.MinInt64\<close> and \<open>utils.MinDuration\<close> are called by the
  bucket and the shipper but their file is not among the sources. By their names and by
  the spec (refill never exceeds capacity; backoff capped at 30s) each returns the
  smaller of its two arguments.
\<close>

definition MinInt64 :: "int \<Rightarrow> int \<Rightarrow> int" where
  "MinInt64 a b = (if a < b then a else b)"

definition MinDuration :: "Duration \<Rightarrow> Duration \<Rightarrow> Duration" where
  "MinDuration a b = (if a < b then a else b)"

text \<open>
  Go's signed integers wrap around. \<open>wrap64\<close> and \<open>wrap32\<close> bring the exact result of an
  \<open>int64\<close> or \<open>int32\<close> operation back into range; \<open>rem\<close> is Go's \<open>%\<close>, whose result has
  the sign of the dividend.
\<close>

definition wrap64 :: "int \<Rightarrow> int" where
  "wrap64 x = (x + 2 ^ 63) mod 2 ^ 64 - 2 ^ 63"

definition wrap32 :: "int \<Rightarrow> int" where
  "wrap32 x = (x + 2 ^ 31) mod 2 ^ 32 - 2 ^ 31"

definition rem :: "int \<Rightarrow> int \<Rightarrow> int" where
  "rem a b = sgn a * (\<bar>a\<bar> mod \<bar>b\<bar>)"

text \<open>
  The outcome of an HTTP round trip: a transport error, or a response with its status
  code and (the beginning of) its body.
\<close>

datatype http_outcome = TransportError string | HttpResponse int string

text \<open>A run-time panic of the Go program, with the runtime's message.\<close>

datatype panic = Panic string

section \<open>Package logs: the leaky bucket\<close>

text \<open>
  The bucket computes two quantities in \<open>float64\<close>: the tokens accrued,
  \<open>int64(elapsed.Seconds() * float64(refillRate))\<close>, and the time to wait,
  \<open>time.Duration(float64(tokensNeeded) / float64(refillRate) * float64(time.Second))\<close>.
  Both are parameters of the model (functions of the integers that go in), so that what
  is proved holds whatever the rounding.
\<close>

record floats =
  TokensToAdd :: "Duration \<Rightarrow> int \<Rightarrow> int"
  WaitFor :: "int \<Rightarrow> int \<Rightarrow> Duration"

record LeakyBucket =
  capacity :: int
  tokens :: int
  refillRate :: int
  lastRefill :: Time

definition NewLeakyBucket :: "Time \<Rightarrow> int \<Rightarrow> int \<Rightarrow> LeakyBucket" where
  "NewLeakyBucket now cap rate = \<lparr>capacity = cap, tokens = cap, refillRate = rate, lastRefill = now\<rparr>"

definition refill :: "'f floats_scheme \<Rightarrow> Time \<Rightarrow> LeakyBucket \<Rightarrow> LeakyBucket" where
  "refill fl now lb =
     (let elapsed = Sub now (lastRefill lb);
          tokensToAdd = TokensToAdd fl elapsed (refillRate lb)
      in if tokensToAdd > 0
         then lb\<lparr>tokens := MinInt64 (capacity lb) (wrap64 (tokens lb + tokensToAdd)),
                 lastRefill := now\<rparr>
         else lb)"

definition Allow :: "'f floats_scheme \<Rightarrow> Time \<Rightarrow> int \<Rightarrow> LeakyBucket \<Rightarrow> LeakyBucket \<times> bool" where
  "Allow fl now n lb =
     (let lb1 = refill fl now lb
      in if tokens lb1 \<ge> n then (lb1\<lparr>tokens := wrap64 (tokens lb1 - n)\<rparr>, True)
         else (lb1, False))"


definition WaitTime :: "'f floats_scheme \<Rightarrow> Time \<Rightarrow> int \<Rightarrow> LeakyBucket \<Rightarrow> LeakyBucket \<times> Duration" where
  "WaitTime fl now n lb =
     (let lb1 = refill fl now lb
      in if tokens lb1 \<ge> n then (lb1, 0)
         else (let tokensNeeded = wrap64 (n - tokens lb1)
               in (lb1, WaitFor fl tokensNeeded (refillRate lb1))))"







section \<open>Package logs: the ring buffer\<close>

text \<open>
  The slots hold pointers to events: \<open>None\<close> is the nil pointer. The \<open>int\<close> fields are
  modelled as integers; in a buffer made by \<open>NewRingBuffer\<close> they stay between 0 and the
  length of the slice. An index outside the slice and a remainder by zero are panics.
\<close>

record 'e RingBuffer =
  buffer :: "'e option list"
  rb_capacity :: int
  head :: int
  tail :: int
  rb_size :: int

definition NewRingBuffer :: "int \<Rightarrow> panic + 'e RingBuffer" where
  "NewRingBuffer cap =
     (if cap < 0 then Inl (Panic ''makeslice: len out of range'')
      else Inr \<lparr>buffer = replicate (nat cap) None, rb_capacity = cap, head = 0, tail = 0, rb_size = 0\<rparr>)"

definition inSlice :: "int \<Rightarrow> 'x list \<Rightarrow> bool" where
  "inSlice i xs = (0 \<le> i \<and> i < int (length xs))"

definition Add :: "'e option \<Rightarrow> 'e RingBuffer \<Rightarrow> panic + ('e RingBuffer \<times> bool)" where
  "Add event rb =
     (if rb_size rb \<ge> rb_capacity rb then Inr (rb, False)
      else if \<not> inSlice (tail rb) (buffer rb) then Inl (Panic ''index out of range'')
      else if rb_capacity rb = 0 then Inl (Panic ''integer divide by zero'')
      else Inr (rb\<lparr>buffer := (buffer rb)[nat (tail rb) := event],
                   tail := rem (tail rb + 1) (rb_capacity rb),
                   rb_size := rb_size rb + 1\<rparr>, True))"












text \<open>
  Sequences of operations and what each returns. A panic leaves the buffer as it was
  (in every operation it precedes the first assignment on the path taken from a buffer
  made by \<open>NewRingBuffer\<close>, and the deferred unlock releases the mutex).
\<close>

datatype 'e rb_op = DoAdd "'e option" | DoGet | DoDrain int | DoDrainAll | DoSize | DoIsFull | DoIsEmpty

datatype 'e rb_out =
    Added bool
  | Got "'e option" bool
  | Drained "'e option list"
  | SizeIs int
  | Flag bool
  | Panicked panic





text \<open>
  The queue the buffer stands for: the \<open>size\<close> slots from \<open>head\<close> on, around the end of
  the slice; and what holds of the fields of a buffer made by \<open>NewRingBuffer\<close>.
\<close>

definition rb_contents :: "'e RingBuffer \<Rightarrow> 'e option list" where
  "rb_contents rb =
     map (\<lambda>i. buffer rb ! nat ((head rb + int i) mod rb_capacity rb)) [0..<nat (rb_size rb)]"

definition rb_wf :: "'e RingBuffer \<Rightarrow> bool" where
  "rb_wf rb =
     (length (buffer rb) = nat (rb_capacity rb)
      \<and> 0 \<le> rb_size rb \<and> rb_size rb \<le> rb_capacity rb
      \<and> 0 \<le> head rb \<and> (head rb < rb_capacity rb \<or> rb_capacity rb = 0 \<and> head rb = 0)
      \<and> tail rb = (head rb + rb_size rb) mod rb_capacity rb)"

text \<open>
  The spec's bounded FIFO queue, as a list: what each operation does to it and returns.
\<close>

fun queue_step :: "int \<Rightarrow> 'e rb_op \<Rightarrow> 'e option list \<Rightarrow> 'e option list \<times> 'e rb_out" where
  "queue_step cap (DoAdd e) q =
     (if int (length q) \<ge> cap then (q, Added False) else (q @ [e], Added True))"
| "queue_step cap DoGet q =
     (case q of [] \<Rightarrow> (q, Got None False) | e # es \<Rightarrow> (es, Got e True))"
| "queue_step cap (DoDrain m) q =
     (if q = [] then (q, Drained [])
      else if m < 0 then (q, Panicked (Panic ''makeslice: cap out of range''))
      else (drop (nat m) q, Drained (take (nat m) q)))"
| "queue_step cap DoDrainAll q = ([], Drained q)"
| "queue_step cap DoSize q = (q, SizeIs (int (length q)))"
| "queue_step cap DoIsFull q = (q, Flag (int (length q) \<ge> cap))"
| "queue_step cap DoIsEmpty q = (q, Flag (q = []))"


section \<open>Package logs: the log shipper\<close>

definition maxRetries :: int where
  "maxRetries = 5"

definition initialBackoff :: Duration where
  "initialBackoff = 1 * Second"

definition maxBackoff :: Duration where
  "maxBackoff = 30 * Second"

definition circuitBreakerThreshold :: int where
  "circuitBreakerThreshold = 10"

definition circuitBreakerTimeout :: Duration where
  "circuitBreakerTimeout = 60 * Second"

text \<open>
  The counters of \<open>ShipperMetrics\<close> are \<open>int64\<close>; each grows by at most the length of one
  batch per call and is modelled without a bound. \<open>failureCount\<close> is an \<open>atomic.Int32\<close>.
\<close>

record ShipperMetrics =
  EventsShipped :: int
  EventsDropped :: int
  ShippingErrors :: int
  BatchesSent :: int

record 'e LogShipper =
  bucket :: LeakyBucket
  s_buffer :: "'e RingBuffer"
  batchSize :: int
  flushInterval :: Duration
  failureCount :: int
  circuitOpen :: bool
  lastFailure :: Time
  metrics :: ShipperMetrics

record LogShipperConfig =
  BatchSize :: int
  FlushInterval :: Duration
  BucketCapacity :: int
  RefillRate :: int
  BufferSize :: int

definition NewLogShipper :: "Time \<Rightarrow> LogShipperConfig \<Rightarrow> panic + 'e LogShipper" where
  "NewLogShipper now config =
     (let c1 = (if BatchSize config \<le> 0 then config\<lparr>BatchSize := 100\<rparr> else config);
          c2 = (if FlushInterval c1 \<le> 0 then c1\<lparr>FlushInterval := 10 * Second\<rparr> else c1);
          c3 = (if BucketCapacity c2 \<le> 0 then c2\<lparr>BucketCapacity := 1000\<rparr> else c2);
          c4 = (if RefillRate c3 \<le> 0 then c3\<lparr>RefillRate := 100\<rparr> else c3);
          c5 = (if BufferSize c4 \<le> 0 then c4\<lparr>BufferSize := 10000\<rparr> else c4)
      in case NewRingBuffer (BufferSize c5) of
           Inl p \<Rightarrow> Inl p
         | Inr rb \<Rightarrow>
             Inr \<lparr>bucket = NewLeakyBucket now (BucketCapacity c5) (RefillRate c5),
                  s_buffer = rb,
                  batchSize = BatchSize c5,
                  flushInterval = FlushInterval c5,
                  failureCount = 0,
                  circuitOpen = False,
                  lastFailure = 0,
                  metrics = \<lparr>EventsShipped = 0, EventsDropped = 0, ShippingErrors = 0,
                             BatchesSent = 0\<rparr>\<rparr>)"

definition isCircuitOpen :: "Time \<Rightarrow> 'e LogShipper \<Rightarrow> bool \<times> 'e LogShipper" where
  "isCircuitOpen now s =
     (if \<not> circuitOpen s then (False, s)
      else if Sub now (lastFailure s) > circuitBreakerTimeout
      then (False, s\<lparr>circuitOpen := False, failureCount := 0\<rparr>)
      else (True, s))"

definition recordFailure :: "Time \<Rightarrow> 'e LogShipper \<Rightarrow> 'e LogShipper" where
  "recordFailure now s =
     (let cnt = wrap32 (failureCount s + 1);
          s1 = s\<lparr>failureCount := cnt, lastFailure := now\<rparr>
      in if cnt \<ge> circuitBreakerThreshold then s1\<lparr>circuitOpen := True\<rparr> else s1)"

definition recordSuccess :: "'e LogShipper \<Rightarrow> 'e LogShipper" where
  "recordSuccess s = s\<lparr>failureCount := 0, circuitOpen := False\<rparr>"

definition isRetryableError :: "error \<Rightarrow> bool" where
  "isRetryableError err = True"

text \<open>
  What the world answers during one \<open>shipBatch\<close>. For the \<open>k\<close>-th call of \<open>send\<close>:
  \<open>LogsURLAt k\<close> and \<open>TokenAt k\<close> are the token provider's answers and \<open>DoAt k\<close> the
  outcome of \<open>client.Do\<close> (status code and the first 1024 bytes of the body, or a
  transport error). \<open>RequestError url\<close> is the error of \<open>http.NewRequestWithContext\<close> for
  that URL, if any; \<open>Compress\<close> is \<open>compressPayload\<close> (gzip); \<open>ToJSONL\<close> is the JSON
  encoding of \<open>eventsToJSONL\<close>.
\<close>

record 'e shipping_world =
  LogsURLAt :: "nat \<Rightarrow> string"
  TokenAt :: "nat \<Rightarrow> string"
  DoAt :: "nat \<Rightarrow> http_outcome"
  RequestError :: "string \<Rightarrow> string option"
  Compress :: "string \<Rightarrow> error + string"
  ToJSONL :: "'e option list \<Rightarrow> error + string"

record http_request =
  URL :: string
  Authorization :: string
  ContentEncoding :: string
  Payload :: string

text \<open>What a call does to the outside: the sleeps it takes and the requests it posts.\<close>

record effects =
  Slept :: "Duration list"
  Posted :: "http_request list"

definition no_effects :: effects where
  "no_effects = \<lparr>Slept = [], Posted = []\<rparr>"

definition send :: "('e, 'w) shipping_world_scheme \<Rightarrow> nat \<Rightarrow> string \<Rightarrow> effects \<Rightarrow> error option \<times> effects" where
  "send w k payload eff =
     (let logsURL = LogsURLAt w k in
      if logsURL = [] then (Some (Error ''logs URL not available''), eff)
      else
        (let token = TokenAt w k in
         if token = [] then (Some (Error ''access token not available''), eff)
         else
           (let (body, encoding) =
                  (if length payload > 1024
                   then (case Compress w payload of
                           Inr compressed \<Rightarrow> (compressed, ''gzip'')
                         | Inl err \<Rightarrow> (payload, []))
                   else (payload, []))
            in case RequestError w logsURL of
                 Some m \<Rightarrow> (Some (Error (''failed to create request: '' @ m)), eff)
               | None \<Rightarrow>
                   (let eff1 = eff\<lparr>Posted := Posted eff @
                                 [\<lparr>URL = logsURL, Authorization = ''Bearer '' @ token,
                                   ContentEncoding = encoding, Payload = body\<rparr>]\<rparr>
                    in case DoAt w k of
                         TransportError m \<Rightarrow> (Some (Error (''request failed: '' @ m)), eff1)
                       | HttpResponse code bodyBytes \<Rightarrow>
                           if code \<ge> 200 \<and> code < 300 then (None, eff1)
                           else (Some (Error (''server error: '' @ bodyBytes)), eff1)))))"

text \<open>The \<open>for\<close> loop of \<open>sendWithRetry\<close>, from the given value of \<open>attempt\<close> on.\<close>

function sendWithRetry_loop ::
  "('e, 'w) shipping_world_scheme \<Rightarrow> string \<Rightarrow> int \<Rightarrow> Duration \<Rightarrow> error option \<Rightarrow> effects
     \<Rightarrow> error option \<times> effects" where
  "sendWithRetry_loop w payload attempt backoff lastErr eff =
     (if attempt < maxRetries
      then
        (let eff1 = (if attempt > 0 then eff\<lparr>Slept := Slept eff @ [backoff]\<rparr> else eff);
             backoff1 = (if attempt > 0 then MinDuration (backoff * 2) maxBackoff else backoff)
         in case send w (nat attempt) payload eff1 of
              (None, eff2) \<Rightarrow> (None, eff2)
            | (Some err, eff2) \<Rightarrow>
                if \<not> isRetryableError err then (Some err, eff2)
                else sendWithRetry_loop w payload (attempt + 1) backoff1 (Some err) eff2)
      else (lastErr, eff))"
  by pat_completeness auto
termination
  by (relation "measure (\<lambda>(w, payload, attempt, backoff, lastErr, eff). nat (maxRetries - attempt))")
     auto

declare sendWithRetry_loop.simps [simp del]

definition sendWithRetry ::
  "('e, 'w) shipping_world_scheme \<Rightarrow> string \<Rightarrow> effects \<Rightarrow> error option \<times> effects" where
  "sendWithRetry w payload eff = sendWithRetry_loop w payload 0 initialBackoff None eff"

text \<open>The state of the circuit breaker: the three fields it consists of.\<close>

definition breaker :: "'e LogShipper \<Rightarrow> int \<times> bool \<times> Time" where
  "breaker s = (failureCount s, circuitOpen s, lastFailure s)"

text \<open>
  What the \<open>k\<close>-th call of \<open>send\<close> returns and posts, and the number of calls that fail
  before the first that succeeds (among the five the loop can make).
\<close>

definition attemptError :: "('e, 'w) shipping_world_scheme \<Rightarrow> nat \<Rightarrow> string \<Rightarrow> error option" where
  "attemptError w k payload = fst (send w k payload no_effects)"

definition attemptPosts :: "('e, 'w) shipping_world_scheme \<Rightarrow> nat \<Rightarrow> string \<Rightarrow> http_request list" where
  "attemptPosts w k payload = Posted (snd (send w k payload no_effects))"

definition failedFirst :: "('e, 'w) shipping_world_scheme \<Rightarrow> string \<Rightarrow> nat" where
  "failedFirst w payload = length (takeWhile (\<lambda>k. attemptError w k payload \<noteq> None) [0..<5])"

text \<open>
  The loop that puts a batch back into the overflow buffer, counting what does not fit.
\<close>

fun rebuffer :: "'e option list \<Rightarrow> 'e LogShipper \<Rightarrow> panic + 'e LogShipper" where
  "rebuffer [] s = Inr s"
| "rebuffer (event # events) s =
     (case Add event (s_buffer s) of
        Inl p \<Rightarrow> Inl p
      | Inr (rb, ok) \<Rightarrow>
          rebuffer events
            (if \<not> ok
             then s\<lparr>s_buffer := rb,
                    metrics := (metrics s)\<lparr>EventsDropped := EventsDropped (metrics s) + 1\<rparr>\<rparr>
             else s\<lparr>s_buffer := rb\<rparr>))"

text \<open>
  \<open>shipBatch\<close>. \<open>clk\<close> gives the readings of the clock in the order in which the call
  may take them: \<open>clk 0\<close> in \<open>isCircuitOpen\<close>, \<open>clk 1\<close> in \<open>WaitTime\<close>, \<open>clk 2\<close> in \<open>Allow\<close>
  and \<open>clk 3\<close> in \<open>recordFailure\<close>.
\<close>

definition shipBatch ::
  "'f floats_scheme \<Rightarrow> ('e, 'w) shipping_world_scheme \<Rightarrow> (nat \<Rightarrow> Time) \<Rightarrow> 'e option list
     \<Rightarrow> 'e LogShipper \<Rightarrow> panic + ('e LogShipper \<times> effects)" where
  "shipBatch fl w clk events s =
     (case isCircuitOpen (clk 0) s of
        (True, s1) \<Rightarrow>
          (case rebuffer events s1 of Inl p \<Rightarrow> Inl p | Inr s2 \<Rightarrow> Inr (s2, no_effects))
      | (False, s1) \<Rightarrow>
          (case WaitTime fl (clk 1) 1 (bucket s1) of
             (b1, waitTime) \<Rightarrow>
               (let eff1 = (if waitTime > 0 then no_effects\<lparr>Slept := [waitTime]\<rparr> else no_effects)
                in case Allow fl (clk 2) 1 b1 of
                     (b2, False) \<Rightarrow>
                       (case rebuffer events (s1\<lparr>bucket := b2\<rparr>) of
                          Inl p \<Rightarrow> Inl p
                        | Inr s2 \<Rightarrow> Inr (s2, eff1))
                   | (b2, True) \<Rightarrow>
                       (let s2 = s1\<lparr>bucket := b2\<rparr> in
                        case ToJSONL w events of
                          Inl err \<Rightarrow>
                            Inr (s2\<lparr>metrics := (metrics s2)
                                     \<lparr>EventsDropped := EventsDropped (metrics s2) + int (length events)\<rparr>\<rparr>,
                                 eff1)
                        | Inr payload \<Rightarrow>
                            (case sendWithRetry w payload eff1 of
                               (Some err, eff2) \<Rightarrow>
                                 (let s3 = recordFailure (clk 3) s2;
                                      s4 = s3\<lparr>metrics := (metrics s3)
                                             \<lparr>ShippingErrors := ShippingErrors (metrics s3) + 1\<rparr>\<rparr>
                                  in case rebuffer events s4 of
                                       Inl p \<Rightarrow> Inl p
                                     | Inr s5 \<Rightarrow> Inr (s5, eff2))
                             | (None, eff2) \<Rightarrow>
                                 (let s3 = recordSuccess s2
                                  in Inr (s3\<lparr>metrics := (metrics s3)
                                            \<lparr>EventsShipped := EventsShipped (metrics s3) + int (length events),
                                             BatchesSent := BatchesSent (metrics s3) + 1\<rparr>\<rparr>,
                                          eff2)))))))"

section \<open>Package edl: parser, updater\<close>

text \<open>
  \<open>netipx.IPSetBuilder\<close>: the entries added so far and the errors recorded. A rejected
  operation adds nothing and records an error; \<open>IPSet\<close> returns the set when no error was
  recorded and an error otherwise.
\<close>

record ('a, 'p) IPSetBuilder =
  added :: "('a, 'p) entry list"
  errs :: "error list"

definition Builder_empty :: "('a, 'p) IPSetBuilder" where
  "Builder_empty = \<lparr>added = [], errs = []\<rparr>"

definition Builder_put ::
  "('a, 'p, 'z) golib_scheme \<Rightarrow> ('a, 'p) entry \<Rightarrow> ('a, 'p) IPSetBuilder \<Rightarrow> ('a, 'p) IPSetBuilder" where
  "Builder_put lib e b =
     (if Rejects lib e then b\<lparr>errs := errs b @ [Error ''netipx: invalid entry'']\<rparr>
      else b\<lparr>added := added b @ [e]\<rparr>)"

definition Builder_AddPrefix ::
  "('a, 'p, 'z) golib_scheme \<Rightarrow> 'p \<Rightarrow> ('a, 'p) IPSetBuilder \<Rightarrow> ('a, 'p) IPSetBuilder" where
  "Builder_AddPrefix lib p b = Builder_put lib (PrefixEntry p) b"

definition Builder_Add ::
  "('a, 'p, 'z) golib_scheme \<Rightarrow> 'a \<Rightarrow> ('a, 'p) IPSetBuilder \<Rightarrow> ('a, 'p) IPSetBuilder" where
  "Builder_Add lib a b = Builder_put lib (AddrEntry a) b"

definition Builder_IPSet :: "('a, 'p) IPSetBuilder \<Rightarrow> error + ('a, 'p) IPSet" where
  "Builder_IPSet b = (case errs b of [] \<Rightarrow> Inr (added b) | e # es \<Rightarrow> Inl e)"

text \<open>
  The scanner loop of \<open>parseEDL\<close> over the lines still to come, with the builder and the
  counter as they stand. The counter is an \<open>int64\<close>; it counts lines of one response body
  and is modelled without a bound.
\<close>

fun parseEDL_loop ::
  "('a, 'p, 'z) golib_scheme \<Rightarrow> string list \<Rightarrow> ('a, 'p) IPSetBuilder \<Rightarrow> int
     \<Rightarrow> ('a, 'p) IPSetBuilder \<times> int" where
  "parseEDL_loop lib [] b n = (b, n)"
| "parseEDL_loop lib (text # rest) b n =
     (let line = TrimSpace lib text in
      if line = [] \<or> HasPrefix line ''#'' then parseEDL_loop lib rest b n
      else case ParsePrefix lib line of
        Inr prefix \<Rightarrow> parseEDL_loop lib rest (Builder_AddPrefix lib prefix b) (n + 1)
      | Inl err \<Rightarrow>
          (case ParseAddr lib line of
             Inr addr \<Rightarrow> parseEDL_loop lib rest (Builder_Add lib addr b) (n + 1)
           | Inl err' \<Rightarrow> parseEDL_loop lib rest b n))"

definition parseEDL ::
  "('a, 'p, 'z) golib_scheme \<Rightarrow> string \<Rightarrow> error + (('a, 'p) IPSet \<times> int)" where
  "parseEDL lib body =
     (case Scan lib body of
        (lines, scanErr) \<Rightarrow>
          (case parseEDL_loop lib lines Builder_empty 0 of
             (b, n) \<Rightarrow>
               (case scanErr of
                  Some err \<Rightarrow> Inl err
                | None \<Rightarrow>
                    (case Builder_IPSet b of
                       Inl err \<Rightarrow> Inl err
                     | Inr s \<Rightarrow> Inr (s, n)))))"



text \<open>
  The updater. \<open>FetchWithRetry\<close> is network I/O: its result is an argument of
  \<open>updateNow\<close>, as is the reading of the clock.
\<close>

record ('a, 'p) Updater =
  u_matcher :: "('a, 'p) Matcher"
  u_config :: Config
  lastUpdate :: Time
  lastError :: "error option"
  updateCount :: int

definition NewUpdater :: "Config \<Rightarrow> ('a, 'p) Matcher \<Rightarrow> ('a, 'p) Updater" where
  "NewUpdater cfg m =
     \<lparr>u_matcher = m, u_config = cfg, lastUpdate = 0, lastError = None, updateCount = 0\<rparr>"

definition updateNow ::
  "Time \<Rightarrow> error + (('a, 'p) IPSet \<times> int) \<Rightarrow> ('a, 'p) Updater \<Rightarrow> ('a, 'p) Updater \<times> error option" where
  "updateNow now fetched u =
     (case fetched of
        Inl err \<Rightarrow> (u\<lparr>lastError := Some err\<rparr>, Some err)
      | Inr (s, n) \<Rightarrow>
          (u\<lparr>u_matcher := Matcher_Update s n (u_matcher u), lastUpdate := now, lastError := None,
             updateCount := updateCount u + 1\<rparr>, None))"

definition GetStatus :: "('a, 'p) Updater \<Rightarrow> Time \<times> error option \<times> int \<times> int" where
  "GetStatus u = (lastUpdate u, lastError u, updateCount u, Matcher_Count (u_matcher u))"

section \<open>Package auth: readiness\<close>

text \<open>\<open>HealthHandler.Ready\<close>: the status code and the body written; \<open>now\<close> is the clock.\<close>

definition Ready :: "Time \<Rightarrow> ('a, 'p) Updater \<Rightarrow> int \<times> string" where
  "Ready now u =
     (case GetStatus u of
        (lastUpd, lastErr, updCount, entryCount) \<Rightarrow>
          if IsZero lastUpd \<or> entryCount = 0 then (503, ''Not ready - EDL not yet loaded'')
          else if Sub now lastUpd > 2 * Hour then (503, ''Not ready - EDL data is stale'')
          else (200, ''Ready''))"

section \<open>Package api: bootstrap and the token manager\<close>

record BootstrapResponse =
  AccessToken :: string
  ExpiresIn :: int
  JWKSUrl :: string
  ConfigURL :: string
  LogsURL :: string

text \<open>
  What the world answers to one \<open>Bootstrap\<close> call: the claims read from the token
  (issuer, component type, deployment id), the protected machine id, the error of
  \<open>http.NewRequestWithContext\<close> for the bootstrap URL (if any), the answer to the POST
  (status code and the first 1024 bytes of the body), and the decoding of a 200 body.
\<close>

record bootstrap_world =
  Claims :: "error + (string \<times> string \<times> string)"
  MachineID :: "error + string"
  RequestFault :: "error option"
  Answer :: http_outcome
  Decoded :: "error + BootstrapResponse"

fun Error_text :: "error \<Rightarrow> string" where
  "Error_text (Error m) = m"
| "Error_text (PermanentError c m) = ''permanent error: '' @ m"

definition parseBootstrapToken :: "bootstrap_world \<Rightarrow> error + (string \<times> string \<times> string)" where
  "parseBootstrapToken w =
     (case Claims w of
        Inl err \<Rightarrow> Inl (Error (''failed to parse bootstrap token: '' @ Error_text err))
      | Inr (issuer, componentType, deploymentID) \<Rightarrow>
          if issuer = [] then Inl (Error ''bootstrap token missing issuer'')
          else if componentType = [] then Inl (Error ''bootstrap token missing component_type'')
          else if deploymentID = [] then Inl (Error ''bootstrap token missing deployment_id'')
          else Inr (issuer, componentType, deploymentID))"

definition Bootstrap :: "bootstrap_world \<Rightarrow> error + BootstrapResponse" where
  "Bootstrap w =
     (case parseBootstrapToken w of
        Inl err \<Rightarrow> Inl err
      | Inr claims \<Rightarrow>
          (case MachineID w of
             Inl err \<Rightarrow> Inl (Error (''failed to get protected machine ID: '' @ Error_text err))
           | Inr machineID \<Rightarrow>
               (case RequestFault w of
                  Some err \<Rightarrow>
                    Inl (Error (''failed to create bootstrap request: '' @ Error_text err))
                | None \<Rightarrow>
                    (case Answer w of
                       TransportError m \<Rightarrow> Inl (Error (''bootstrap request failed: '' @ m))
                     | HttpResponse code bodyBytes \<Rightarrow>
                         if code \<noteq> 200
                         then (if code = 410 then Inl (PermanentError code bodyBytes)
                               else Inl (Error (''bootstrap failed: '' @ bodyBytes)))
                         else (case Decoded w of
                                 Inl err \<Rightarrow>
                                   Inl (Error (''failed to decode bootstrap response: ''
                                               @ Error_text err))
                               | Inr resp \<Rightarrow> Inr resp)))))"

record TokenManager =
  bootstrapToken :: string
  currentToken :: string
  tokenExpiry :: Time
  configURL :: string
  logsURL :: string
  deploymentDeleted :: bool

definition NewTokenManager :: "string \<Rightarrow> TokenManager" where
  "NewTokenManager tok =
     \<lparr>bootstrapToken = tok, currentToken = [], tokenExpiry = 0, configURL = [], logsURL = [],
      deploymentDeleted = False\<rparr>"

text \<open>
  The four assignments made under the lock after a successful bootstrap. The expiry is
  computed without the wrap-around of \<open>int64\<close>; nothing below depends on its value.
\<close>

definition storeToken :: "Time \<Rightarrow> BootstrapResponse \<Rightarrow> TokenManager \<Rightarrow> TokenManager" where
  "storeToken now resp tm =
     tm\<lparr>currentToken := AccessToken resp, tokenExpiry := now + ExpiresIn resp * Second,
        configURL := ConfigURL resp, logsURL := LogsURL resp\<rparr>"

definition Initialize :: "Time \<Rightarrow> bootstrap_world \<Rightarrow> TokenManager \<Rightarrow> TokenManager \<times> error option" where
  "Initialize now w tm =
     (case Bootstrap w of
        Inl err \<Rightarrow>
          ((if IsPermanentError err then tm\<lparr>deploymentDeleted := True\<rparr> else tm),
           Some (Error (''initial bootstrap failed: '' @ Error_text err)))
      | Inr resp \<Rightarrow> (storeToken now resp tm, None))"

definition refresh :: "Time \<Rightarrow> bootstrap_world \<Rightarrow> TokenManager \<Rightarrow> TokenManager \<times> error option" where
  "refresh now w tm =
     (case Bootstrap w of
        Inl err \<Rightarrow>
          if IsPermanentError err then (tm\<lparr>deploymentDeleted := True\<rparr>, Some err)
          else (tm, Some (Error (''token refresh failed: '' @ Error_text err)))
      | Inr resp \<Rightarrow> (storeToken now resp tm, None))"

text \<open>
  The goroutine of \<open>StartRefreshLoop\<close>. Each turn of its \<open>select\<close> is one event: the
  context is done, the stop channel is closed, or the timer fires (with the clock and the
  world's answer to the bootstrap call of that turn). The result says whether the
  goroutine has returned. The durations the timer is re-armed with are not part of the
  state and are left out.
\<close>

datatype loop_event = CtxDone | StopClosed | TimerFired Time bootstrap_world

fun refreshLoop :: "loop_event list \<Rightarrow> TokenManager \<Rightarrow> TokenManager \<times> bool" where
  "refreshLoop [] tm = (tm, False)"
| "refreshLoop (CtxDone # evs) tm = (tm, True)"
| "refreshLoop (StopClosed # evs) tm = (tm, True)"
| "refreshLoop (TimerFired now w # evs) tm =
     (if deploymentDeleted tm then (tm, True)
      else refreshLoop evs (fst (refresh now w tm)))"

definition StartRefreshLoop :: "loop_event list \<Rightarrow> TokenManager \<Rightarrow> TokenManager \<times> bool" where
  "StartRefreshLoop evs tm = (if deploymentDeleted tm then (tm, True) else refreshLoop evs tm)"

definition GetToken :: "TokenManager \<Rightarrow> string" where
  "GetToken tm = currentToken tm"

definition GetConfigURL :: "TokenManager \<Rightarrow> string" where
  "GetConfigURL tm = configURL tm"

definition GetLogsURL :: "TokenManager \<Rightarrow> string" where
  "GetLogsURL tm = logsURL tm"

definition IsDeploymentDeleted :: "TokenManager \<Rightarrow> bool" where
  "IsDeploymentDeleted tm = deploymentDeleted tm"

definition GetTokenWithMinValidity ::
  "Time \<Rightarrow> Duration \<Rightarrow> bootstrap_world \<Rightarrow> TokenManager \<Rightarrow> TokenManager \<times> string \<times> error option" where
  "GetTokenWithMinValidity now minValidity w tm =
     (let timeRemaining = Sub (tokenExpiry tm) now; token = currentToken tm in
      if timeRemaining > minValidity then (tm, token, None)
      else case refresh now w tm of
        (tm', Some err) \<Rightarrow> (tm', GetToken tm', Some err)
      | (tm', None) \<Rightarrow> (tm', GetToken tm', None))"

definition ForceRefresh :: "Time \<Rightarrow> bootstrap_world \<Rightarrow> TokenManager \<Rightarrow> TokenManager \<times> error option" where
  "ForceRefresh now w tm = refresh now w tm"

text \<open>
  Every write to the token manager's fields happens under its mutex, inside one of the
  operations below, so a run of the process is a sequence of them in the order in which
  they take the lock.
\<close>

datatype tm_op =
    DoInitialize Time bootstrap_world
  | DoRefresh Time bootstrap_world
  | DoStartRefreshLoop "loop_event list"
  | DoGetTokenWithMinValidity Time Duration bootstrap_world
  | DoForceRefresh Time bootstrap_world
  | DoGetToken
  | DoGetConfigURL
  | DoGetLogsURL
  | DoIsDeploymentDeleted

fun tm_step :: "tm_op \<Rightarrow> TokenManager \<Rightarrow> TokenManager" where
  "tm_step (DoInitialize now w) tm = fst (Initialize now w tm)"
| "tm_step (DoRefresh now w) tm = fst (refresh now w tm)"
| "tm_step (DoStartRefreshLoop evs) tm = fst (StartRefreshLoop evs tm)"
| "tm_step (DoGetTokenWithMinValidity now d w) tm = fst (GetTokenWithMinValidity now d w tm)"
| "tm_step (DoForceRefresh now w) tm = fst (ForceRefresh now w tm)"
| "tm_step DoGetToken tm = tm"
| "tm_step DoGetConfigURL tm = tm"
| "tm_step DoGetLogsURL tm = tm"
| "tm_step DoIsDeploymentDeleted tm = tm"

fun tm_run :: "tm_op list \<Rightarrow> TokenManager \<Rightarrow> TokenManager" where
  "tm_run [] tm = tm"
| "tm_run (op # ops) tm = tm_run ops (tm_step op tm)"

text \<open>A world in which the bootstrap endpoint answers with the given status code.\<close>

definition answering :: "int \<Rightarrow> bootstrap_world" where
  "answering code =
     \<lparr>Claims = Inr (''https://issuer.example'', ''forward_auth'', ''dep-1''),
      MachineID = Inr ''m-1'',
      RequestFault = None,
      Answer = HttpResponse code ''{}'',
      Decoded = Inr \<lparr>AccessToken = ''tok'', ExpiresIn = 3600, JWKSUrl = [],
                     ConfigURL = ''https://issuer.example/config'',
                     LogsURL = ''https://issuer.example/logs''\<rparr>\<rparr>"

section \<open>A stand-in library for concrete runs\<close>

text \<open>
  To run the model on concrete inputs the library parameters need values. This stand-in
  knows the addresses and prefixes of the spec's end-to-end scenarios, written as their
  text; it trims ASCII blanks, splits \<open>host:port\<close> at the last colon, cuts a body into
  lines at each newline (dropping a carriage return before it), and its set builder
  rejects nothing.
\<close>

definition isBlank :: "char \<Rightarrow> bool" where
  "isBlank c = (c = CHR '' '' \<or> c = CHR 0x09 \<or> c = CHR 0x0A \<or> c = CHR 0x0D)"

definition trimBlanks :: "string \<Rightarrow> string" where
  "trimBlanks s = rev (dropWhile isBlank (rev (dropWhile isBlank s)))"

definition splitLastColon :: "string \<Rightarrow> error + (string \<times> string)" where
  "splitLastColon s =
     (if CHR '':'' \<in> set s
      then Inr (rev (tl (dropWhile (\<lambda>c. c \<noteq> CHR '':'') (rev s))),
                rev (takeWhile (\<lambda>c. c \<noteq> CHR '':'') (rev s)))
      else Inl (Error ''missing port in address''))"

fun splitLinesAcc :: "string \<Rightarrow> string \<Rightarrow> string list" where
  "splitLinesAcc [] cur = (if cur = [] then [] else [rev cur])"
| "splitLinesAcc (c # cs) cur =
     (if c = CHR 0x0A
      then rev (case cur of [] \<Rightarrow> [] | d # ds \<Rightarrow> if d = CHR 0x0D then ds else d # ds)
             # splitLinesAcc cs []
      else splitLinesAcc cs (c # cur))"

definition splitLines :: "string \<Rightarrow> string list" where
  "splitLines body = splitLinesAcc body []"

definition knownAddrs :: "string list" where
  "knownAddrs = [''10.1.2.3'', ''10.0.0.1'', ''192.168.1.1'', ''203.0.113.5'', ''203.0.113.7'',
                 ''198.51.100.1'', ''2001:db8::1'', ''2001:db9::1'']"

definition knownPrefixes :: "(string \<times> string list) list" where
  "knownPrefixes = [(''10.0.0.0/8'', [''10.1.2.3'', ''10.0.0.1'']),
                    (''192.168.0.0/16'', [''192.168.1.1'']),
                    (''2001:db8::/32'', [''2001:db8::1''])]"

definition standIn :: "(string, string) golib" where
  "standIn =
     \<lparr>TrimSpace = trimBlanks,
      SplitHostPort = splitLastColon,
      ParseAddr = (\<lambda>s. if s \<in> set knownAddrs then Inr s else Inl (Error ''unable to parse IP'')),
      ParsePrefix = (\<lambda>s. if s \<in> set (map fst knownPrefixes) then Inr s
                         else Inl (Error ''no slash'')),
      Covers = (\<lambda>e ip. case e of
                  PrefixEntry p \<Rightarrow> (case map_of knownPrefixes p of None \<Rightarrow> False
                                    | Some ips \<Rightarrow> ip \<in> set ips)
                | AddrEntry a \<Rightarrow> a = ip),
      Rejects = (\<lambda>e. False),
      Scan = (\<lambda>body. (splitLines body, None))\<rparr>"

text \<open>
  The handler of the spec's first scenario: the list \<open>10.0.0.0/8\<close> published to the
  matcher, mode blocklist, deployment enabled; and the same with the deployment disabled.
\<close>

definition blockTen :: "(string, string) Handler" where
  "blockTen = NewHandler (Matcher_Update [PrefixEntry ''10.0.0.0/8''] 1 Matcher_New) ''blocklist'' True"

definition blockTenDisabled :: "(string, string) Handler" where
  "blockTenDisabled =
     NewHandler (Matcher_Update [PrefixEntry ''10.0.0.0/8''] 1 Matcher_New) ''disabled'' False"

text \<open>
  Updaters after one successful \<open>updateNow\<close> at second 1000: one that fetched an empty
  body, one that fetched the single line \<open>10.0.0.0/8\<close>.
\<close>

definition plainConfig :: Config where
  "plainConfig =
     \<lparr>EDLURL = ''https://edl.example/list'', EDLMode = ''blocklist'',
      UpdateFrequency = 5 * 60 * Second, DeploymentEnabled = True\<rparr>"

definition emptyLoaded :: "(string, string) Updater" where
  "emptyLoaded = fst (updateNow (1000 * Second) (parseEDL standIn []) (NewUpdater plainConfig Matcher_New))"

definition tenLoaded :: "(string, string) Updater" where
  "tenLoaded =
     fst (updateNow (1000 * Second) (parseEDL standIn ''10.0.0.0/8'') (NewUpdater plainConfig Matcher_New))"


text \<open>A token manager whose first bootstrap was answered 410 Gone.\<close>

definition gone :: TokenManager where
  "gone = fst (Initialize 0 (answering 410) (NewTokenManager ''bootstrap''))"

text \<open>
  A stand-in for the floating-point quantities of the bucket: the exact products and
  quotients, truncated towards zero.
\<close>

definition exactFloats :: floats where
  "exactFloats =
     \<lparr>TokensToAdd = (\<lambda>elapsed rate. sgn (elapsed * rate) * (\<bar>elapsed * rate\<bar> div Second)),
      WaitFor = (\<lambda>needed rate. sgn (needed * rate) * (\<bar>needed * Second\<bar> div \<bar>rate\<bar>))\<rparr>"

text \<open>
  Buckets: a fresh one of capacity 10 refilled at one token a second; the same after
  seven tokens were taken; and one whose capacity and rate are both \<open>2^62\<close>.
\<close>

definition tenBucket :: LeakyBucket where
  "tenBucket = NewLeakyBucket 0 10 1"



text \<open>A ring buffer of two slots, and a sequence of operations on it.\<close>

definition twoSlots :: "nat RingBuffer" where
  "twoSlots = \<lparr>buffer = [None, None], rb_capacity = 2, head = 0, tail = 0, rb_size = 0\<rparr>"


text \<open>
  Worlds for the shipper: one whose logs endpoint always answers 503, and one whose
  endpoint answers 503 twice and 204 from then on.
\<close>

definition downWorld :: "nat shipping_world" where
  "downWorld =
     \<lparr>LogsURLAt = (\<lambda>k. ''https://issuer.example/logs''),
      TokenAt = (\<lambda>k. ''tok''),
      DoAt = (\<lambda>k. HttpResponse 503 ''busy''),
      RequestError = (\<lambda>url. None),
      Compress = (\<lambda>p. Inr p),
      ToJSONL = (\<lambda>es. Inr (replicate (length es) CHR ''e''))\<rparr>"

definition upWorld :: "nat shipping_world" where
  "upWorld = downWorld\<lparr>DoAt := (\<lambda>k. if k < 2 then HttpResponse 503 ''busy'' else HttpResponse 204 [])\<rparr>"

text \<open>
  A shipper as \<open>NewLogShipper\<close> makes it from a small configuration, the instants of
  ten failures one second apart, and the shipper after these ten failures.
\<close>

definition smallConfig :: LogShipperConfig where
  "smallConfig = \<lparr>BatchSize = 2, FlushInterval = 0, BucketCapacity = 10, RefillRate = 1, BufferSize = 2\<rparr>"

definition freshShipper :: "nat LogShipper" where
  "freshShipper =
     \<lparr>bucket = tenBucket, s_buffer = twoSlots, batchSize = 2, flushInterval = 10 * Second,
      failureCount = 0, circuitOpen = False, lastFailure = 0,
      metrics = \<lparr>EventsShipped = 0, EventsDropped = 0, ShippingErrors = 0, BatchesSent = 0\<rparr>\<rparr>"

definition failureTimes :: "Time list" where
  "failureTimes = [1 * Second, 2 * Second, 3 * Second, 4 * Second, 5 * Second, 6 * Second,
                   7 * Second, 8 * Second, 9 * Second, 10 * Second]"

definition tripped :: "nat LogShipper" where
  "tripped = fold recordFailure failureTimes freshShipper"

text \<open>A request that carries only an \<open>X-Forwarded-For\<close> header.\<close>

definition xffRequest :: "string \<Rightarrow> Request" where
  "xffRequest v = \<lparr>HeaderGet = (\<lambda>k. if k = ''X-Forwarded-For'' then v else []), RemoteAddr = []\<rparr>"

section \<open>Properties of the access handler\<close>


lemma applyEDLConfig_mode:
  "DeploymentEnabled (applyEDLConfig e cfg) \<Longrightarrow>
   EDLMode (applyEDLConfig e cfg) = ''allowlist'' \<or> EDLMode (applyEDLConfig e cfg) = ''blocklist''"
  by (auto simp: applyEDLConfig_def setDeploymentDisabled_def Let_def split: list.splits if_splits)

lemma edlModeOf_NewHandler:
  "mode = ''allowlist'' \<or> mode = ''blocklist'' \<Longrightarrow> edlModeOf (NewHandler m mode en) = mode"
  by (auto simp: edlModeOf_def NewHandler_def)



text \<open>
  C9. With the deployment enabled and the same published set, switching the handler
  between allowlist and blocklist turns every decision on a parsed address into its
  opposite: the result of \<open>evaluateAccess\<close> is negated, and a request answered 200 under
  one mode is answered 403 under the other.
\<close>

theorem C9_mode_flip_complements:
  assumes enabled: "deploymentEnabled h"
    and valid: "ParseAddr lib clientIP = Inr addr"
  shows "(\<exists>b. evaluateAccess lib h clientIP = Inr b
            \<and> evaluateAccess lib (h\<lparr>isBlocklist := \<not> isBlocklist h\<rparr>) clientIP = Inr (\<not> b))
       \<and> (\<exists>b. evaluateAccess lib (NewHandler m ''allowlist'' True) clientIP = Inr b
            \<and> evaluateAccess lib (NewHandler m ''blocklist'' True) clientIP = Inr (\<not> b))"
  using enabled valid by (simp add: evaluateAccess_def NewHandler_def)

theorem C9_mode_flip_complements_witness:
  "deploymentEnabled blockTen
   \<and> ParseAddr standIn ''10.1.2.3'' = Inr ''10.1.2.3''
   \<and> evaluateAccess standIn blockTen ''10.1.2.3'' = Inr False
   \<and> evaluateAccess standIn (blockTen\<lparr>isBlocklist := \<not> isBlocklist blockTen\<rparr>) ''10.1.2.3'' = Inr True"
proof -
  have a: "deploymentEnabled blockTen"
    by (simp add: blockTen_def NewHandler_def)
  have b: "ParseAddr standIn ''10.1.2.3'' = Inr ''10.1.2.3''"
    by (simp add: standIn_def knownAddrs_def)
  have c: "evaluateAccess standIn blockTen ''10.1.2.3'' = Inr False"
    by (simp add: evaluateAccess_def blockTen_def NewHandler_def Matcher_Contains_def
        IPSet_Contains_def Matcher_Update_def Matcher_New_def standIn_def knownAddrs_def
        knownPrefixes_def)
  from C9_mode_flip_complements [OF a b, where m = "matcher blockTen"] c show ?thesis
    using a b by auto
qed

text \<open>
  C10. With the deployment not enabled \<open>evaluateAccess\<close> answers \<open>(true, nil)\<close> whatever
  the client IP string and whatever \<open>netip.ParseAddr\<close> would say about it (the parser is
  not consulted: replacing it changes nothing), so it never returns the invalid-IP error,
  and every request with a non-empty client IP string is answered 200 and counted as
  allowed.
\<close>

theorem C10_disabled_allows_unparsed:
  assumes disabled: "\<not> deploymentEnabled h"
  shows "evaluateAccess lib h clientIP = Inr True
       \<and> evaluateAccess (lib\<lparr>ParseAddr := anyParser\<rparr>) h clientIP = Inr True
       \<and> (extractClientIP lib h r \<noteq> [] \<longrightarrow>
            Status (ServeHTTP lib page h r) = 200
            \<and> MetricLabel (ServeHTTP lib page h r) = ''allowed'')"
  using disabled by (simp add: evaluateAccess_def ServeHTTP_def Let_def)

theorem C10_disabled_allows_unparsed_witness:
  "\<not> deploymentEnabled blockTenDisabled
   \<and> (\<exists>e. ParseAddr standIn ''not-an-ip'' = Inl e)
   \<and> extractClientIP standIn blockTenDisabled (xffRequest ''not-an-ip'') = ''not-an-ip''
   \<and> evaluateAccess standIn blockTenDisabled ''not-an-ip'' = Inr True
   \<and> Status (ServeHTTP standIn None blockTenDisabled (xffRequest ''not-an-ip'')) = 200"
proof -
  have a: "\<not> deploymentEnabled blockTenDisabled"
    by (simp add: blockTenDisabled_def NewHandler_def)
  have p: "\<exists>e. ParseAddr standIn ''not-an-ip'' = Inl e"
    by (simp add: standIn_def knownAddrs_def)
  have x: "extractClientIP standIn blockTenDisabled (xffRequest ''not-an-ip'') = ''not-an-ip''"
    by (simp add: extractClientIP_def blockTenDisabled_def NewHandler_def xffRequest_def
        standIn_def firstField_def trimBlanks_def isBlank_def)
  from C10_disabled_allows_unparsed [OF a, of standIn "''not-an-ip''" "ParseAddr standIn"
      "xffRequest ''not-an-ip''" None]
  show ?thesis using a p x by simp
qed

section \<open>Properties of the readiness endpoint\<close>

text \<open>
  C4 (as amended). \<open>/ready\<close> answers 200 with body \<open>Ready\<close> exactly when an update has
  completed (the last-update instant is set), the matcher's entry count is not zero and
  the last update is at most two hours old; in every other case it answers 503.
\<close>

theorem C4_ready_iff:
  "Ready now u =
     (if \<not> IsZero (lastUpdate u) \<and> Matcher_Count (u_matcher u) \<noteq> 0
          \<and> Sub now (lastUpdate u) \<le> 2 * Hour
      then (200, ''Ready'')
      else (503, if IsZero (lastUpdate u) \<or> Matcher_Count (u_matcher u) = 0
                 then ''Not ready - EDL not yet loaded''
                 else ''Not ready - EDL data is stale''))"
  by (auto simp: Ready_def GetStatus_def)

lemma parse_empty_body: "parseEDL standIn [] = Inr ([], 0)"
  by (simp add: parseEDL_def standIn_def splitLines_def Builder_empty_def Builder_IPSet_def)

lemma parse_ten_body: "parseEDL standIn ''10.0.0.0/8'' = Inr ([PrefixEntry ''10.0.0.0/8''], 1)"
  by (simp add: parseEDL_def standIn_def splitLines_def Builder_empty_def Builder_IPSet_def
      trimBlanks_def isBlank_def HasPrefix_def knownPrefixes_def Builder_AddPrefix_def
      Builder_put_def)

text \<open>
  The claim as stated fails twice. An update that completed a second ago with an empty
  list leaves \<open>/ready\<close> at 503; and a list loaded exactly two hours ago, which is not less
  than two hours old, still gets 200.
\<close>

theorem C4_ready_counterexample:
  "updateCount emptyLoaded = 1
   \<and> lastUpdate emptyLoaded = 1000 * Second
   \<and> Sub (1001 * Second) (lastUpdate emptyLoaded) = Second
   \<and> Ready (1001 * Second) emptyLoaded = (503, ''Not ready - EDL not yet loaded'')
   \<and> Sub (1000 * Second + 2 * Hour) (lastUpdate tenLoaded) = 2 * Hour
   \<and> Ready (1000 * Second + 2 * Hour) tenLoaded = (200, ''Ready'')"
  by (simp add: emptyLoaded_def tenLoaded_def parse_empty_body parse_ten_body updateNow_def
      NewUpdater_def Matcher_Update_def Matcher_New_def Matcher_Count_def Ready_def
      GetStatus_def IsZero_def Sub_def Second_def Hour_def maxDuration_def minDuration_def)

section \<open>Properties of the EDL parser\<close>






section \<open>Properties of the token manager\<close>

lemma latch_refresh: "deploymentDeleted tm \<Longrightarrow> deploymentDeleted (fst (refresh now w tm))"
  by (simp add: refresh_def storeToken_def split: sum.split)

lemma latch_Initialize: "deploymentDeleted tm \<Longrightarrow> deploymentDeleted (fst (Initialize now w tm))"
  by (simp add: Initialize_def storeToken_def split: sum.split)

lemma latch_refreshLoop: "deploymentDeleted tm \<Longrightarrow> deploymentDeleted (fst (refreshLoop evs tm))"
  by (induction evs tm rule: refreshLoop.induct) (simp_all add: latch_refresh)

lemma latch_StartRefreshLoop:
  "deploymentDeleted tm \<Longrightarrow> deploymentDeleted (fst (StartRefreshLoop evs tm))"
  by (simp add: StartRefreshLoop_def)

lemma latch_GetTokenWithMinValidity:
  "deploymentDeleted tm \<Longrightarrow> deploymentDeleted (fst (GetTokenWithMinValidity now d w tm))"
proof -
  assume d: "deploymentDeleted tm"
  obtain tm' e where r: "refresh now w tm = (tm', e)" by (cases "refresh now w tm")
  with latch_refresh [OF d, of now w] have "deploymentDeleted tm'" by simp
  with d r show ?thesis
    by (simp add: GetTokenWithMinValidity_def Let_def split: option.split)
qed

lemma latch_step: "deploymentDeleted tm \<Longrightarrow> deploymentDeleted (tm_step op tm)"
  by (cases op)
     (simp_all add: latch_refresh latch_Initialize latch_StartRefreshLoop
        latch_GetTokenWithMinValidity ForceRefresh_def)

text \<open>
  C8. Once \<open>IsDeploymentDeleted\<close> answers true it answers true after any further sequence
  of token-manager operations (\<open>Initialize\<close>, \<open>refresh\<close>, \<open>StartRefreshLoop\<close>,
  \<open>GetTokenWithMinValidity\<close>, \<open>ForceRefresh\<close> and the getters), whatever the bootstrap
  endpoint answers in between.
\<close>

theorem C8_deleted_latch_monotone:
  assumes "IsDeploymentDeleted tm"
  shows "IsDeploymentDeleted (tm_run ops tm)"
  using assms
proof (induction ops arbitrary: tm)
  case Nil
  then show ?case by simp
next
  case (Cons op ops)
  from Cons.prems have "IsDeploymentDeleted (tm_step op tm)"
    by (simp add: IsDeploymentDeleted_def latch_step)
  then show ?case by (simp add: Cons.IH)
qed

theorem C8_deleted_latch_monotone_witness:
  "IsDeploymentDeleted gone
   \<and> IsDeploymentDeleted
       (tm_run [DoRefresh 5 (answering 200), DoForceRefresh 6 (answering 503),
                DoStartRefreshLoop [TimerFired 7 (answering 200)],
                DoGetTokenWithMinValidity 8 Second (answering 200),
                DoInitialize 9 (answering 200)] gone)
   \<and> currentToken (tm_run [DoRefresh 5 (answering 200)] gone) = ''tok''"
proof -
  have g: "IsDeploymentDeleted gone"
    by (simp add: gone_def Initialize_def Bootstrap_def parseBootstrapToken_def answering_def
        IsDeploymentDeleted_def NewTokenManager_def)
  have t: "currentToken (tm_run [DoRefresh 5 (answering 200)] gone) = ''tok''"
    by (simp add: refresh_def Bootstrap_def parseBootstrapToken_def answering_def storeToken_def)
  have "IsDeploymentDeleted
          (tm_run [DoRefresh 5 (answering 200), DoForceRefresh 6 (answering 503),
                   DoStartRefreshLoop [TimerFired 7 (answering 200)],
                   DoGetTokenWithMinValidity 8 Second (answering 200),
                   DoInitialize 9 (answering 200)] gone)"
    by (rule C8_deleted_latch_monotone [OF g])
  with g t show ?thesis by blast
qed

section \<open>Properties of the leaky bucket\<close>




lemma refill_capacity: "capacity (refill fl now lb) = capacity lb"
  by (simp add: refill_def Let_def)







section \<open>Properties of the ring buffer\<close>

lemma rem_mod: "0 \<le> a \<Longrightarrow> 0 < b \<Longrightarrow> rem a b = a mod b"
  by (cases "a = 0") (simp_all add: rem_def)


lemma slots_differ:
  fixes h c i j :: int
  assumes "0 \<le> i" "i < j" "j < c + i" 
  shows "(h + i) mod c \<noteq> (h + j) mod c"
proof
  assume "(h + i) mod c = (h + j) mod c"
  then have "c dvd (h + j) - (h + i)" by (simp add: mod_eq_dvd_iff dvd_diff_commute)
  then have "c dvd j - i" by (simp add: algebra_simps)
  with assms show False by (simp add: zdvd_not_zless)
qed


lemma slot_in_range:
  "0 < c \<Longrightarrow> nat ((x::int) mod c) < nat c"
  by (simp add: nat_less_iff)

lemma Add_full: "rb_size rb \<ge> rb_capacity rb \<Longrightarrow> Add e rb = Inr (rb, False)"
  by (simp add: Add_def)

lemma Add_room:
  assumes wf: "rb_wf rb" and room: "rb_size rb < rb_capacity rb"
  shows "\<exists>rb'. Add e rb = Inr (rb', True) \<and> rb_wf rb' \<and> rb_capacity rb' = rb_capacity rb
           \<and> rb_contents rb' = rb_contents rb @ [e] \<and> rb_size rb' = rb_size rb + 1"
proof -
  let ?c = "rb_capacity rb" and ?h = "head rb" and ?s = "rb_size rb"
  from wf room have c: "0 < ?c" and len: "length (buffer rb) = nat ?c"
    and s: "0 \<le> ?s" and h: "0 \<le> ?h" "?h < ?c" and t: "tail rb = (?h + ?s) mod ?c"
    by (auto simp: rb_wf_def)
  let ?rb' = "rb\<lparr>buffer := (buffer rb)[nat (tail rb) := e],
                 tail := rem (tail rb + 1) ?c, rb_size := ?s + 1\<rparr>"
  have tin: "inSlice (tail rb) (buffer rb)"
    using c len t by (simp add: inSlice_def)
  have add: "Add e rb = Inr (?rb', True)"
    using room tin c by (simp add: Add_def)
  have t0: "0 \<le> tail rb" using t c by simp
  have tl': "rem (tail rb + 1) ?c = (?h + (?s + 1)) mod ?c"
    using t0 c by (simp add: rem_mod t mod_add_left_eq add.assoc)
  have wf': "rb_wf ?rb'"
    using wf room tl' by (auto simp: rb_wf_def)
  have cont: "rb_contents ?rb' = rb_contents rb @ [e]"
  proof (rule nth_equalityI)
    show "length (rb_contents ?rb') = length (rb_contents rb @ [e])"
      using s by (simp add: rb_contents_def nat_add_distrib)
  next
    fix i assume "i < length (rb_contents ?rb')"
    then have i: "i < nat (?s + 1)" by (simp add: rb_contents_def)
    show "rb_contents ?rb' ! i = (rb_contents rb @ [e]) ! i"
    proof (cases "i < nat ?s")
      case True
      then have "int i < ?s" by simp
      then have "(?h + int i) mod ?c \<noteq> (?h + ?s) mod ?c"
        using room by (intro slots_differ) simp_all
      then have "nat ((?h + int i) mod ?c) \<noteq> nat (tail rb)"
        using t c by (simp add: nat_eq_iff)
      with True i show ?thesis
        by (simp add: rb_contents_def nth_append)
    next
      case False
      with i s have ieq: "int i = ?s" by linarith
      then have "i = nat ?s" by simp
      moreover have "nat (tail rb) < length (buffer rb)"
        using tin by (simp add: inSlice_def nat_less_iff)
      moreover have "nat (?s + 1) = Suc (nat ?s)"
        using s by simp
      ultimately show ?thesis
        using s t by (simp add: rb_contents_def nth_append)
    qed
  qed
  from add wf' cont show ?thesis by auto
qed








lemma queue_step_bound:
  "int (length q) \<le> cap \<Longrightarrow> int (length (fst (queue_step cap op q))) \<le> cap"
  by (cases op) (auto split: list.splits)








section \<open>Properties of the log shipper: retries\<close>

lemma send_split:
  "send w k payload eff
     = (attemptError w k payload, eff\<lparr>Posted := Posted eff @ attemptPosts w k payload\<rparr>)"
  by (auto simp: send_def attemptError_def attemptPosts_def no_effects_def Let_def
      split: option.split http_outcome.split sum.split prod.split)

lemma loop_done:
  "\<not> attempt < maxRetries \<Longrightarrow> sendWithRetry_loop w payload attempt backoff lastErr eff = (lastErr, eff)"
  by (simp add: sendWithRetry_loop.simps [of w payload attempt])

lemma loop_turn:
  "attempt < maxRetries \<Longrightarrow>
   sendWithRetry_loop w payload attempt backoff lastErr eff =
     (case attemptError w (nat attempt) payload of
        None \<Rightarrow>
          (None, eff\<lparr>Slept := Slept eff @ (if attempt > 0 then [backoff] else []),
                     Posted := Posted eff @ attemptPosts w (nat attempt) payload\<rparr>)
      | Some err \<Rightarrow>
          sendWithRetry_loop w payload (attempt + 1)
            (if attempt > 0 then MinDuration (backoff * 2) maxBackoff else backoff) (Some err)
            (eff\<lparr>Slept := Slept eff @ (if attempt > 0 then [backoff] else []),
                 Posted := Posted eff @ attemptPosts w (nat attempt) payload\<rparr>))"
  by (subst sendWithRetry_loop.simps)
     (simp add: send_split isRetryableError_def Let_def split: option.split)

lemma five: "[0..<5] = [0, 1, 2, 3, 4]"
  by (simp add: upt_rec)

lemma retry_outcome:
  "sendWithRetry w payload eff =
     ((if failedFirst w payload = 5 then attemptError w 4 payload else None),
      eff\<lparr>Slept := Slept eff @ take (failedFirst w payload) [1 * Second, 2 * Second, 4 * Second, 8 * Second],
          Posted := Posted eff @
            concat (map (\<lambda>k. attemptPosts w k payload) [0..<min (failedFirst w payload + 1) 5])\<rparr>)"
proof -
  show ?thesis
    by (simp add: sendWithRetry_def loop_turn loop_done maxRetries_def failedFirst_def five
        MinDuration_def maxBackoff_def initialBackoff_def Second_def eval_nat_numeral
        split: option.split)
qed

text \<open>
  C3 (as amended). \<open>sendWithRetry\<close> makes at most five attempts in all (the first and up
  to four retries). Before the second, third, fourth and fifth attempt it sleeps 1s, 2s,
  4s and 8s; the doubling is capped at 30s, which it never reaches. Every error is
  retried. It returns nil as soon as an attempt succeeds, and the error of the fifth
  attempt when all five fail.
\<close>

theorem C3_send_with_retry:
  "sendWithRetry w payload eff =
     ((if failedFirst w payload = 5 then attemptError w 4 payload else None),
      eff\<lparr>Slept := Slept eff @ take (failedFirst w payload) [1 * Second, 2 * Second, 4 * Second, 8 * Second],
          Posted := Posted eff @
            concat (map (\<lambda>k. attemptPosts w k payload) [0..<min (failedFirst w payload + 1) 5])\<rparr>)"
  by (rule retry_outcome)

lemma down_attempt: "attemptError downWorld k ''ee'' = Some (Error ''server error: busy'')"
  by (simp add: attemptError_def send_def downWorld_def no_effects_def)

lemma down_posts: "length (attemptPosts downWorld k ''ee'') = 1"
  by (simp add: attemptPosts_def send_def downWorld_def no_effects_def)

lemma up_attempt:
  "attemptError upWorld k ''ee'' = (if k < 2 then Some (Error ''server error: busy'') else None)"
  by (simp add: attemptError_def send_def upWorld_def downWorld_def no_effects_def)

theorem C3_send_with_retry_witness:
  "failedFirst upWorld ''ee'' = 2
   \<and> fst (sendWithRetry upWorld ''ee'' no_effects) = None
   \<and> Slept (snd (sendWithRetry upWorld ''ee'' no_effects)) = [1 * Second, 2 * Second]"
proof -
  have f: "failedFirst upWorld ''ee'' = 2"
    by (simp add: failedFirst_def five up_attempt)
  from C3_send_with_retry [of upWorld "''ee''" no_effects] f show ?thesis
    by (simp add: no_effects_def)
qed

text \<open>
  The claim as stated fails when every attempt fails: five requests are posted, the
  sleeps between them are 1s, 2s, 4s and 8s, and no sleep of 16s is taken.
\<close>

theorem C3_retry_counterexample:
  "fst (sendWithRetry downWorld ''ee'' no_effects) = Some (Error ''server error: busy'')
   \<and> length (Posted (snd (sendWithRetry downWorld ''ee'' no_effects))) = 5
   \<and> Slept (snd (sendWithRetry downWorld ''ee'' no_effects))
       = [1 * Second, 2 * Second, 4 * Second, 8 * Second]
   \<and> Slept (snd (sendWithRetry downWorld ''ee'' no_effects))
       \<noteq> [1 * Second, 2 * Second, 4 * Second, 8 * Second, 16 * Second]"
proof -
  have f: "failedFirst downWorld ''ee'' = 5"
    by (simp add: failedFirst_def five down_attempt)
  show ?thesis
    by (simp add: retry_outcome f down_attempt no_effects_def five down_posts)
qed

section \<open>Properties of the log shipper: the circuit breaker\<close>

lemma wrap32_id: "- (2 ^ 31) \<le> x \<Longrightarrow> x < 2 ^ 31 \<Longrightarrow> wrap32 x = x"
  by (simp add: wrap32_def)

lemma failures_fold:
  assumes "0 \<le> failureCount s" and "failureCount s + int (length ts) < 2 ^ 31"
  shows "failureCount (fold recordFailure ts s) = failureCount s + int (length ts)
       \<and> circuitOpen (fold recordFailure ts s)
           = (circuitOpen s \<or> (ts \<noteq> [] \<and> circuitBreakerThreshold \<le> failureCount s + int (length ts)))"
  using assms
proof (induction ts arbitrary: s)
  case Nil
  then show ?case by simp
next
  case (Cons t ts)
  from Cons.prems have w: "wrap32 (failureCount s + 1) = failureCount s + 1"
    by (intro wrap32_id) auto
  then have c: "failureCount (recordFailure t s) = failureCount s + 1"
    by (simp add: recordFailure_def Let_def)
  have o: "circuitOpen (recordFailure t s)
             = (circuitOpen s \<or> circuitBreakerThreshold \<le> failureCount s + 1)"
    using w by (auto simp: recordFailure_def Let_def)
  from Cons.prems c have p: "0 \<le> failureCount (recordFailure t s)"
    "failureCount (recordFailure t s) + int (length ts) < 2 ^ 31"
    by simp_all
  from Cons.IH [OF p] c o show ?case
    by (auto simp: circuitBreakerThreshold_def)
qed

lemma rebuffer_ok:
  assumes "rb_wf (s_buffer s)"
  shows "\<exists>rb. rebuffer events s
            = Inr (s\<lparr>s_buffer := rb,
                     metrics := (metrics s)\<lparr>EventsDropped := EventsDropped (metrics s)
                        + int (length (drop (nat (rb_capacity (s_buffer s) - rb_size (s_buffer s))) events))\<rparr>\<rparr>)
          \<and> rb_wf rb \<and> rb_capacity rb = rb_capacity (s_buffer s)
          \<and> rb_contents rb
              = rb_contents (s_buffer s)
                  @ take (nat (rb_capacity (s_buffer s) - rb_size (s_buffer s))) events"
  using assms
proof (induction events arbitrary: s)
  case Nil
  then show ?case by (intro exI [of _ "s_buffer s"]) simp
next
  case (Cons e events)
  let ?b = "s_buffer s"
  show ?case
  proof (cases "rb_size ?b \<ge> rb_capacity ?b")
    case True
    let ?s1 = "s\<lparr>s_buffer := ?b, metrics := (metrics s)\<lparr>EventsDropped := EventsDropped (metrics s) + 1\<rparr>\<rparr>"
    have a: "Add e ?b = Inr (?b, False)" using True by (rule Add_full)
    have "rb_wf (s_buffer ?s1)" using Cons.prems by simp
    from Cons.IH [OF this] obtain rb where
      r: "rebuffer events ?s1
            = Inr (?s1\<lparr>s_buffer := rb,
                     metrics := (metrics ?s1)\<lparr>EventsDropped := EventsDropped (metrics ?s1)
                        + int (length (drop (nat (rb_capacity (s_buffer ?s1) - rb_size (s_buffer ?s1))) events))\<rparr>\<rparr>)"
      and w: "rb_wf rb" "rb_capacity rb = rb_capacity (s_buffer ?s1)"
        "rb_contents rb = rb_contents (s_buffer ?s1)
           @ take (nat (rb_capacity (s_buffer ?s1) - rb_size (s_buffer ?s1))) events"
      by blast
    from True have z: "nat (rb_capacity ?b - rb_size ?b) = 0" by simp
    show ?thesis
      using a r w z by (intro exI [of _ rb]) (simp add: add.assoc)
  next
    case False
    then have room: "rb_size ?b < rb_capacity ?b" by simp
    from Add_room [OF Cons.prems room, of e] obtain rb1 where
      a: "Add e ?b = Inr (rb1, True)" and w1: "rb_wf rb1" "rb_capacity rb1 = rb_capacity ?b"
        "rb_contents rb1 = rb_contents ?b @ [e]" "rb_size rb1 = rb_size ?b + 1"
      by blast
    let ?s1 = "s\<lparr>s_buffer := rb1\<rparr>"
    have "rb_wf (s_buffer ?s1)" using w1 by simp
    from Cons.IH [OF this] obtain rb where
      r: "rebuffer events ?s1
            = Inr (?s1\<lparr>s_buffer := rb,
                     metrics := (metrics ?s1)\<lparr>EventsDropped := EventsDropped (metrics ?s1)
                        + int (length (drop (nat (rb_capacity (s_buffer ?s1) - rb_size (s_buffer ?s1))) events))\<rparr>\<rparr>)"
      and w: "rb_wf rb" "rb_capacity rb = rb_capacity (s_buffer ?s1)"
        "rb_contents rb = rb_contents (s_buffer ?s1)
           @ take (nat (rb_capacity (s_buffer ?s1) - rb_size (s_buffer ?s1))) events"
      by blast
    from room have z: "nat (rb_capacity ?b - rb_size ?b) = Suc (nat (rb_capacity ?b - (rb_size ?b + 1)))"
      by simp
    show ?thesis
      using a r w w1 by (intro exI [of _ rb]) (simp add: z)
  qed
qed

lemma check_outcome:
  "isCircuitOpen now s =
     (if circuitOpen s \<and> Sub now (lastFailure s) \<le> circuitBreakerTimeout then (True, s)
      else (False, if circuitOpen s then recordSuccess s else s))"
  by (auto simp: isCircuitOpen_def recordSuccess_def)

lemma open_sticky: "circuitOpen s \<Longrightarrow> circuitOpen (fold recordFailure ts s)"
  by (induction ts arbitrary: s) (simp_all add: recordFailure_def Let_def)

lemma opens_at_ten:
  assumes "\<not> circuitOpen s0" and "failureCount s0 = 0"
  shows "circuitOpen (fold recordFailure ts s0) = (10 \<le> length ts)"
proof (cases "length ts < 10")
  case True
  with assms failures_fold [of s0 ts] show ?thesis
    by (simp add: circuitBreakerThreshold_def)
next
  case False
  from False have "ts \<noteq> []" by auto
  then have "circuitOpen (fold recordFailure (take 10 ts) s0)"
    using assms False failures_fold [of s0 "take 10 ts"]
    by (simp add: circuitBreakerThreshold_def min_def)
  then have "circuitOpen (fold recordFailure (drop 10 ts) (fold recordFailure (take 10 ts) s0))"
    by (rule open_sticky)
  then have "circuitOpen (fold recordFailure (take 10 ts @ drop 10 ts) s0)"
    by (simp only: fold_append comp_apply)
  with False show ?thesis by simp
qed

lemma open_rebuffers:
  assumes wf: "rb_wf (s_buffer s)"
    and op: "circuitOpen s" and recent: "Sub (clk 0) (lastFailure s) \<le> circuitBreakerTimeout"
  shows "\<exists>rb. shipBatch fl w clk events s
            = Inr (s\<lparr>s_buffer := rb,
                     metrics := (metrics s)\<lparr>EventsDropped := EventsDropped (metrics s)
                        + int (length (drop (nat (rb_capacity (s_buffer s) - rb_size (s_buffer s))) events))\<rparr>\<rparr>,
                   no_effects)
          \<and> rb_contents rb
              = rb_contents (s_buffer s)
                  @ take (nat (rb_capacity (s_buffer s) - rb_size (s_buffer s))) events"
proof -
  from rebuffer_ok [OF wf, of events] obtain rb where
    "rebuffer events s
       = Inr (s\<lparr>s_buffer := rb,
                metrics := (metrics s)\<lparr>EventsDropped := EventsDropped (metrics s)
                   + int (length (drop (nat (rb_capacity (s_buffer s) - rb_size (s_buffer s))) events))\<rparr>\<rparr>)"
    "rb_contents rb
       = rb_contents (s_buffer s) @ take (nat (rb_capacity (s_buffer s) - rb_size (s_buffer s))) events"
    by blast
  with op recent show ?thesis
    by (intro exI [of _ rb]) (simp add: shipBatch_def check_outcome)
qed

lemma closed_ships:
  assumes wf: "rb_wf (s_buffer s)"
    and cl: "isCircuitOpen (clk 0) s = (False, s1)"
    and granted: "snd (Allow fl (clk 2) 1 (fst (WaitTime fl (clk 1) 1 (bucket s1))))"
    and enc: "ToJSONL w events = Inr payload"
  shows "\<exists>s' eff. shipBatch fl w clk events s = Inr (s', eff)
          \<and> breaker s' = (if failedFirst w payload = 5 then breaker (recordFailure (clk 3) s1)
                           else breaker (recordSuccess s1))"
proof -
  obtain b1 wt where wtm: "WaitTime fl (clk 1) 1 (bucket s1) = (b1, wt)"
    by (cases "WaitTime fl (clk 1) 1 (bucket s1)")
  obtain b2 where al: "Allow fl (clk 2) 1 b1 = (b2, True)"
    using granted wtm by (cases "Allow fl (clk 2) 1 b1") simp
  let ?eff1 = "if wt > 0 then no_effects\<lparr>Slept := [wt]\<rparr> else no_effects"
  let ?s2 = "s1\<lparr>bucket := b2\<rparr>"
  have buf1: "s_buffer s1 = s_buffer s"
    using cl by (auto simp: isCircuitOpen_def split: if_splits)
  show ?thesis
  proof (cases "failedFirst w payload = 5")
    case True
    then obtain err where e: "attemptError w 4 payload = Some err"
      by (cases "attemptError w 4 payload") (auto simp: failedFirst_def five split: if_splits)
    let ?s4 = "(recordFailure (clk 3) ?s2)\<lparr>metrics := (metrics (recordFailure (clk 3) ?s2))
                 \<lparr>ShippingErrors := ShippingErrors (metrics (recordFailure (clk 3) ?s2)) + 1\<rparr>\<rparr>"
    have "rb_wf (s_buffer ?s4)"
      using wf buf1 by (simp add: recordFailure_def Let_def)
    from rebuffer_ok [OF this, of events] obtain s5 where
      r: "rebuffer events ?s4 = Inr s5" and b: "breaker s5 = breaker ?s4"
      by (auto simp: breaker_def)
    have "breaker ?s4 = breaker (recordFailure (clk 3) s1)"
      by (simp add: breaker_def recordFailure_def Let_def)
    with True e r b wtm al show ?thesis
      by (simp add: shipBatch_def cl enc retry_outcome Let_def)
  next
    case False
    with wtm al show ?thesis
      by (simp add: shipBatch_def cl enc retry_outcome Let_def breaker_def recordSuccess_def)
  qed
qed

text \<open>
  C2 (as amended). Starting from a closed circuit with no failure counted, the circuit
  is open after a run of consecutive failures exactly when there were at least ten of
  them, and a single success closes it and clears the count. While the circuit is open
  and the last failure is at most 60 seconds old, \<open>shipBatch\<close> puts the batch back into
  the ring buffer (as much as fits, counting the rest as dropped) and does nothing else:
  it posts no request and takes no sleep. Once more than 60 seconds have passed since
  the last failure, the next \<open>isCircuitOpen\<close> check itself closes the circuit completely:
  it clears the flag and the failure count, leaving the shipper as a success would, and
  answers false. A \<open>shipBatch\<close> that passes the check and the rate limiter and encodes
  its batch records a failure when all five attempts fail and a success otherwise.
\<close>

theorem C2_circuit_breaker:
  assumes closed: "\<not> circuitOpen s0" "failureCount s0 = 0"
    and wf: "rb_wf (s_buffer s)"
  shows "circuitOpen (fold recordFailure ts s0) = (10 \<le> length ts)
       \<and> \<not> circuitOpen (recordSuccess s) \<and> failureCount (recordSuccess s) = 0
       \<and> isCircuitOpen now s =
           (if circuitOpen s \<and> Sub now (lastFailure s) \<le> circuitBreakerTimeout then (True, s)
            else (False, if circuitOpen s then recordSuccess s else s))
       \<and> (circuitOpen s \<and> Sub (clk 0) (lastFailure s) \<le> circuitBreakerTimeout \<longrightarrow>
            (\<exists>rb. shipBatch fl w clk events s
                    = Inr (s\<lparr>s_buffer := rb,
                             metrics := (metrics s)\<lparr>EventsDropped := EventsDropped (metrics s)
                               + int (length (drop (nat (rb_capacity (s_buffer s) - rb_size (s_buffer s))) events))\<rparr>\<rparr>,
                           no_effects)
                  \<and> rb_contents rb
                      = rb_contents (s_buffer s)
                          @ take (nat (rb_capacity (s_buffer s) - rb_size (s_buffer s))) events))
       \<and> (\<not> fst (isCircuitOpen (clk 0) s)
            \<and> snd (Allow fl (clk 2) 1 (fst (WaitTime fl (clk 1) 1 (bucket (snd (isCircuitOpen (clk 0) s))))))
            \<and> ToJSONL w events = Inr payload \<longrightarrow>
            (\<exists>s' eff. shipBatch fl w clk events s = Inr (s', eff)
                  \<and> breaker s' =
                      (if failedFirst w payload = 5
                       then breaker (recordFailure (clk 3) (snd (isCircuitOpen (clk 0) s)))
                       else breaker (recordSuccess (snd (isCircuitOpen (clk 0) s))))))"
proof -
  have a: "circuitOpen (fold recordFailure ts s0) = (10 \<le> length ts)"
    using closed by (rule opens_at_ten)
  have b: "\<not> circuitOpen (recordSuccess s) \<and> failureCount (recordSuccess s) = 0"
    by (simp add: recordSuccess_def)
  have c: "isCircuitOpen now s =
           (if circuitOpen s \<and> Sub now (lastFailure s) \<le> circuitBreakerTimeout then (True, s)
            else (False, if circuitOpen s then recordSuccess s else s))"
    by (rule check_outcome)
  have d: "\<exists>rb. shipBatch fl w clk events s
                    = Inr (s\<lparr>s_buffer := rb,
                             metrics := (metrics s)\<lparr>EventsDropped := EventsDropped (metrics s)
                               + int (length (drop (nat (rb_capacity (s_buffer s) - rb_size (s_buffer s))) events))\<rparr>\<rparr>,
                           no_effects)
                  \<and> rb_contents rb
                      = rb_contents (s_buffer s)
                          @ take (nat (rb_capacity (s_buffer s) - rb_size (s_buffer s))) events"
    if "circuitOpen s \<and> Sub (clk 0) (lastFailure s) \<le> circuitBreakerTimeout"
    using open_rebuffers [OF wf, of clk fl w events] that by blast
  have e: "\<exists>s' eff. shipBatch fl w clk events s = Inr (s', eff)
                  \<and> breaker s' =
                      (if failedFirst w payload = 5
                       then breaker (recordFailure (clk 3) (snd (isCircuitOpen (clk 0) s)))
                       else breaker (recordSuccess (snd (isCircuitOpen (clk 0) s))))"
    if h: "\<not> fst (isCircuitOpen (clk 0) s)
            \<and> snd (Allow fl (clk 2) 1 (fst (WaitTime fl (clk 1) 1 (bucket (snd (isCircuitOpen (clk 0) s))))))
            \<and> ToJSONL w events = Inr payload"
  proof -
    from h have "isCircuitOpen (clk 0) s = (False, snd (isCircuitOpen (clk 0) s))"
      by (cases "isCircuitOpen (clk 0) s") simp
    from closed_ships [where s = s and clk = clk and fl = fl and w = w and events = events
        and payload = payload, OF wf this] h
    show ?thesis by blast
  qed
  from a b c d e show ?thesis by blast
qed

lemma tripped_eq:
  "tripped = freshShipper\<lparr>failureCount := 10, circuitOpen := True, lastFailure := 10 * Second\<rparr>"
  by (simp add: tripped_def failureTimes_def freshShipper_def recordFailure_def wrap32_def Let_def
      circuitBreakerThreshold_def)

lemma fresh_new: "NewLogShipper 0 smallConfig = Inr freshShipper"
  by (simp add: NewLogShipper_def smallConfig_def freshShipper_def NewRingBuffer_def Let_def
      tenBucket_def twoSlots_def numeral_2_eq_2)

lemma twoSlots_wf: "rb_wf twoSlots \<and> rb_contents twoSlots = []"
  by (simp add: rb_wf_def twoSlots_def rb_contents_def)

lemma down_attempts: "attemptError downWorld k p = Some (Error ''server error: busy'')"
  by (simp add: attemptError_def send_def downWorld_def no_effects_def Let_def split: prod.split)

theorem C2_circuit_breaker_witness:
  "NewLogShipper 0 smallConfig = Inr freshShipper
   \<and> \<not> circuitOpen freshShipper \<and> failureCount freshShipper = 0
   \<and> rb_wf (s_buffer tripped) \<and> rb_wf (s_buffer freshShipper)
   \<and> \<not> circuitOpen (fold recordFailure (butlast failureTimes) freshShipper)
   \<and> circuitOpen (fold recordFailure failureTimes freshShipper)
   \<and> circuitOpen tripped \<and> Sub (30 * Second) (lastFailure tripped) \<le> circuitBreakerTimeout
   \<and> (\<exists>rb. shipBatch exactFloats downWorld (\<lambda>k. 30 * Second) [Some 7, Some 8, Some 9] tripped
              = Inr (tripped\<lparr>s_buffer := rb, metrics := (metrics tripped)\<lparr>EventsDropped := 1\<rparr>\<rparr>,
                     no_effects)
            \<and> rb_contents rb = [Some 7, Some 8])
   \<and> isCircuitOpen (70 * Second + 1) tripped = (False, recordSuccess tripped)
   \<and> \<not> fst (isCircuitOpen (30 * Second) freshShipper)
   \<and> ToJSONL downWorld [Some 7, Some 8, Some 9] = Inr ''eee''
   \<and> failedFirst downWorld ''eee'' = 5
   \<and> (\<exists>s' eff. shipBatch exactFloats downWorld (\<lambda>k. 30 * Second) [Some 7, Some 8, Some 9] freshShipper
                  = Inr (s', eff)
                \<and> breaker s' = (1, False, 30 * Second))"
proof -
  let ?clk = "\<lambda>k::nat. 30 * Second"
  let ?ev = "[Some 7, Some 8, Some 9] :: nat option list"
  have f: "\<not> circuitOpen freshShipper" "failureCount freshShipper = 0"
    by (simp_all add: freshShipper_def)
  have wt: "rb_wf (s_buffer tripped)"
    by (simp add: tripped_eq freshShipper_def twoSlots_wf)
  have wfr: "rb_wf (s_buffer freshShipper)"
    by (simp add: freshShipper_def twoSlots_wf)
  have len: "length failureTimes = 10" "length (butlast failureTimes) = 9"
    by (simp_all add: failureTimes_def)
  from C2_circuit_breaker [OF f wt, of "butlast failureTimes"]
  have "circuitOpen (fold recordFailure (butlast failureTimes) freshShipper)
          = (10 \<le> length (butlast failureTimes))"
    by blast
  then have nine: "\<not> circuitOpen (fold recordFailure (butlast failureTimes) freshShipper)"
    by (simp only: len)
  from C2_circuit_breaker [OF f wt, of failureTimes]
  have "circuitOpen (fold recordFailure failureTimes freshShipper) = (10 \<le> length failureTimes)"
    by blast
  then have ten: "circuitOpen (fold recordFailure failureTimes freshShipper)"
    by (simp only: len)
  have op: "circuitOpen tripped" "Sub (30 * Second) (lastFailure tripped) \<le> circuitBreakerTimeout"
    by (simp_all add: tripped_eq Sub_def maxDuration_def minDuration_def Second_def
        circuitBreakerTimeout_def)
  have room: "rb_capacity (s_buffer tripped) - rb_size (s_buffer tripped) = 2"
    "rb_contents (s_buffer tripped) = []" "EventsDropped (metrics tripped) = 0"
    by (simp_all add: tripped_eq freshShipper_def twoSlots_wf) (simp_all add: twoSlots_def)
  from C2_circuit_breaker [OF f wt, where clk = ?clk and fl = exactFloats and w = downWorld
      and events = ?ev] op
  have re: "\<exists>rb. shipBatch exactFloats downWorld ?clk ?ev tripped
              = Inr (tripped\<lparr>s_buffer := rb, metrics := (metrics tripped)\<lparr>EventsDropped := 1\<rparr>\<rparr>,
                     no_effects)
            \<and> rb_contents rb = [Some 7, Some 8]"
    by (simp add: room numeral_2_eq_2)
  from C2_circuit_breaker [OF f wt, where now = "70 * Second + 1"]
  have "isCircuitOpen (70 * Second + 1) tripped =
           (if circuitOpen tripped \<and> Sub (70 * Second + 1) (lastFailure tripped) \<le> circuitBreakerTimeout
            then (True, tripped)
            else (False, if circuitOpen tripped then recordSuccess tripped else tripped))"
    by blast
  moreover have "\<not> Sub (70 * Second + 1) (lastFailure tripped) \<le> circuitBreakerTimeout"
    by (simp add: tripped_eq Sub_def maxDuration_def minDuration_def Second_def
        circuitBreakerTimeout_def)
  ultimately have late: "isCircuitOpen (70 * Second + 1) tripped = (False, recordSuccess tripped)"
    using op(1) by simp
  have cl: "\<not> fst (isCircuitOpen (30 * Second) freshShipper)"
    by (simp add: isCircuitOpen_def freshShipper_def)
  have s1: "snd (isCircuitOpen (30 * Second) freshShipper) = freshShipper"
    by (simp add: isCircuitOpen_def freshShipper_def)
  have gr: "snd (Allow exactFloats (30 * Second) 1
                  (fst (WaitTime exactFloats (30 * Second) 1 (bucket freshShipper))))"
    by (simp add: freshShipper_def tenBucket_def NewLeakyBucket_def WaitTime_def Allow_def
        refill_def exactFloats_def Sub_def maxDuration_def minDuration_def Second_def MinInt64_def
        wrap64_def Let_def)
  have en: "ToJSONL downWorld ?ev = Inr ''eee''"
    by (simp add: downWorld_def eval_nat_numeral)
  have ff: "failedFirst downWorld ''eee'' = 5"
    by (simp add: failedFirst_def five down_attempts)
  have brk: "breaker (recordFailure (30 * Second) freshShipper) = (1, False, 30 * Second)"
    by (simp add: breaker_def recordFailure_def freshShipper_def wrap32_def Let_def
        circuitBreakerThreshold_def)
  from C2_circuit_breaker [OF f wfr, where clk = ?clk and fl = exactFloats and w = downWorld
      and events = ?ev and payload = "''eee''"] cl gr en
  have sh: "\<exists>s' eff. shipBatch exactFloats downWorld ?clk ?ev freshShipper = Inr (s', eff)
                \<and> breaker s' = (1, False, 30 * Second)"
    by (simp add: s1 ff brk)
  from fresh_new f wt wfr nine ten op re late cl en ff sh show ?thesis
    by blast
qed

text \<open>
  The claim as stated fails at the timeout: no half-open state exists. After ten
  failures, the check made just over 60 seconds after the last one leaves the shipper
  exactly as \<open>recordSuccess\<close> would (flag cleared, count 0) although nothing was shipped,
  and a failure right after it does not open the circuit again: the count is 1.
\<close>

theorem C2_half_open_counterexample:
  "circuitOpen tripped \<and> failureCount tripped = 10 \<and> lastFailure tripped = 10 * Second
   \<and> isCircuitOpen (70 * Second + 1) tripped = (False, recordSuccess tripped)
   \<and> \<not> circuitOpen (snd (isCircuitOpen (70 * Second + 1) tripped))
   \<and> failureCount (snd (isCircuitOpen (70 * Second + 1) tripped)) = 0
   \<and> \<not> circuitOpen (recordFailure (71 * Second) (snd (isCircuitOpen (70 * Second + 1) tripped)))
   \<and> failureCount (recordFailure (71 * Second) (snd (isCircuitOpen (70 * Second + 1) tripped))) = 1"
  by (simp add: tripped_eq check_outcome recordSuccess_def recordFailure_def wrap32_def Let_def
      Sub_def maxDuration_def minDuration_def Second_def circuitBreakerTimeout_def
      circuitBreakerThreshold_def freshShipper_def)

end
